theory Spec2Isabelle
  imports Complex_Main
begin

section \<open>Python values and primitives\<close>

text \<open>
  The irrigation engine is written in Python over \<open>float\<close>. The embedding reads every
  float as a real number: \<open>+\<close>, \<open>-\<close>, \<open>*\<close> are exact, and \<open>math.sin\<close>, \<open>math.cos\<close>,
  \<open>math.log\<close>, \<open>math.acos\<close> are the real functions on their domains.
  What Python raises is a value of type \<open>error\<close>: a division whose divisor is zero is
  \<open>ZeroDivisionError\<close>; \<open>math.acos\<close> outside \<open>[-1, 1]\<close> or \<open>math.log\<close> of a
  non-positive number is \<open>ValueError\<close> ("math domain error"); \<open>math.exp\<close> of an argument
  whose exponential is no double is \<open>OverflowError\<close> ("math range error"); arithmetic on
  \<open>None\<close> is \<open>TypeError\<close>.
  The binary rounding of the individual operations is left out, except in the section on
  binary64 rounding, where the last bit decides what is reported. Sums, products and
  quotients that overflow raise nothing in Python (they give \<open>inf\<close> or \<open>nan\<close>); these
  two values are outside the model.
\<close>

datatype error =
    ZeroDivisionError
  | ValueError
  | OverflowError
  | TypeError
  | KeyError
  | IndexError
  | WeatherUnavailable

definition py_div :: "real \<Rightarrow> real \<Rightarrow> error + real" where
  "py_div a b = (if b = 0 then Inl ZeroDivisionError else Inr (a / b))"

definition math_acos :: "real \<Rightarrow> error + real" where
  "math_acos x = (if - 1 \<le> x \<and> x \<le> 1 then Inr (arccos x) else Inl ValueError)"

definition math_log :: "real \<Rightarrow> error + real" where
  "math_log x = (if 0 < x then Inr (ln x) else Inl ValueError)"

text \<open>
  \<open>math.exp\<close> raises when the result exceeds the largest double, that is from \<open>2^1024\<close>
  on (up to the last rounding; the argument is then above 709.78).
\<close>

definition math_exp :: "real \<Rightarrow> error + real" where
  "math_exp x = (if exp x < 2 ^ 1024 then Inr (exp x) else Inl OverflowError)"

definition math_radians :: "real \<Rightarrow> real" where
  "math_radians d = d * pi / 180"

text \<open>
  \<open>math.tan\<close> never raises on a finite angle. The real tangent has poles, which no double
  hits: \<open>math.radians(90)\<close> is the double next to \<open>pi / 2\<close>, and its tangent is
  1.633123935319537e16 (the opposite number at \<open>-90\<close>). At a pole the model takes this
  value of the program; for latitudes in \<open>[-90, 90]\<close> the poles are met at 90 and -90 only,
  and the declination, at most 0.409 in magnitude, meets none.
\<close>

definition math_tan :: "real \<Rightarrow> real" where
  "math_tan x = (if cos x = 0 then sin x * 16331239353195370 else tan x)"

text \<open>
  \<open>round(x, n)\<close> rounds to \<open>n\<close> decimals, a tie going to the even neighbour.
\<close>

definition round_half_even :: "real \<Rightarrow> int" where
  "round_half_even r =
     (let f = \<lfloor>r\<rfloor>; d = r - of_int f
      in if d < 1 / 2 then f
         else if 1 / 2 < d then f + 1
         else if even f then f else f + 1)"

definition py_round :: "real \<Rightarrow> nat \<Rightarrow> real" where
  "py_round x n = of_int (round_half_even (x * 10 ^ n)) / 10 ^ n"

text \<open>\<open>d.get(k, default)\<close> on a table of constants, whose lookup is \<open>None\<close> for an absent key.\<close>

definition dict_get :: "'a option \<Rightarrow> 'a \<Rightarrow> 'a" where
  "dict_get v d = (case v of None \<Rightarrow> d | Some x \<Rightarrow> x)"

text \<open>
  A Python value that may be \<open>None\<close> is an \<open>option\<close>. The weather dictionaries hold such
  values: \<open>fetch_weather_data\<close> stores \<open>item['main'].get('humidity')\<close>, which is \<open>None\<close>
  when the service sent no humidity. An entry of such a dictionary is therefore in one of
  three states: the key is absent, the key is bound to \<open>None\<close>, or it is bound to a value.
  \<open>d.get(k, default)\<close> yields the default for an absent key only, and \<open>d[k]\<close> raises
  for an absent key only. A number is needed where arithmetic is done.
\<close>

datatype 'a entry = Absent | PyNone | Val 'a

definition entry_get :: "'a entry \<Rightarrow> 'a option \<Rightarrow> 'a option" where
  "entry_get e d = (case e of Absent \<Rightarrow> d | PyNone \<Rightarrow> None | Val x \<Rightarrow> Some x)"

definition entry_index :: "'a entry \<Rightarrow> error + 'a option" where
  "entry_index e = (case e of Absent \<Rightarrow> Inl KeyError | PyNone \<Rightarrow> Inr None | Val x \<Rightarrow> Inr (Some x))"

definition entry_of :: "'a option \<Rightarrow> 'a entry" where
  "entry_of v = (case v of None \<Rightarrow> PyNone | Some x \<Rightarrow> Val x)"

definition py_num :: "real option \<Rightarrow> error + real" where
  "py_num v = (case v of None \<Rightarrow> Inl TypeError | Some x \<Rightarrow> Inr x)"

section \<open>Savings\<close>

record savings_report =
  water_saved_liters :: real
  water_saved_cubic_meters :: real
  percentage_saved :: real
  cost_saved_tnd :: real
  cost_saved_usd :: real

definition zero_report :: savings_report where
  "zero_report =
     \<lparr>water_saved_liters = 0, water_saved_cubic_meters = 0, percentage_saved = 0,
      cost_saved_tnd = 0, cost_saved_usd = 0\<rparr>"

text \<open>
  \<open>calculate_water_savings\<close> of \<open>main.py\<close>; \<open>main_live_data.py\<close> has the same body, and
  \<open>savings_service.calculate_savings\<close> has it too, with the second key named
  \<open>water_saved_m3\<close>.
\<close>

definition calculate_water_savings_main :: "real \<Rightarrow> real \<Rightarrow> error + savings_report" where
  "calculate_water_savings_main traditional_amount smart_amount =
     (let water_saved_liters = (traditional_amount - smart_amount) * 1000
      in case py_div (traditional_amount - smart_amount) traditional_amount of
           Inl e \<Rightarrow> Inl e
         | Inr q \<Rightarrow>
             (let percentage_saved = q * 100;
                  cost_saved_tnd = water_saved_liters * 0.0005
              in Inr \<lparr>water_saved_liters = py_round water_saved_liters 2,
                      water_saved_cubic_meters = py_round (traditional_amount - smart_amount) 2,
                      percentage_saved = py_round percentage_saved 2,
                      cost_saved_tnd = py_round cost_saved_tnd 2,
                      cost_saved_usd = py_round (cost_saved_tnd * 0.32) 2\<rparr>))"

text \<open>\<open>calculate_water_savings\<close> of \<open>main_mock_data.py\<close>, with its guard.\<close>

definition calculate_water_savings_mock :: "real \<Rightarrow> real \<Rightarrow> error + savings_report" where
  "calculate_water_savings_mock traditional_amount smart_amount =
     (if traditional_amount \<le> 0 \<or> smart_amount < 0 then Inr zero_report
      else
        (let water_saved_m3 = max 0 (traditional_amount - smart_amount);
             water_saved_liters = water_saved_m3 * 1000
         in case (if 0 < traditional_amount
                  then (case py_div water_saved_m3 traditional_amount of
                          Inl e \<Rightarrow> Inl e | Inr q \<Rightarrow> Inr (q * 100))
                  else Inr 0) of
              Inl e \<Rightarrow> Inl e
            | Inr p \<Rightarrow>
                (let percentage_saved = p;
                     cost_saved_tnd = water_saved_m3 * 0.5;
                     cost_saved_usd = cost_saved_tnd * 0.32
                 in Inr \<lparr>water_saved_liters = py_round water_saved_liters 2,
                         water_saved_cubic_meters = py_round water_saved_m3 2,
                         percentage_saved = py_round percentage_saved 2,
                         cost_saved_tnd = py_round cost_saved_tnd 2,
                         cost_saved_usd = py_round cost_saved_usd 2\<rparr>)))"

section \<open>Reference evapotranspiration\<close>

text \<open>
  The wind speed at 2 m, \<open>u2\<close>. \<open>main.py\<close>, \<open>main_live_data.py\<close> and
  \<open>et0_service.py\<close> write \<open>wind_speed * (4.87 / math.log(67.8 * 10 - 5.42))\<close>;
  \<open>main_mock_data.py\<close> sets \<open>z = 10.0\<close>, \<open>denom = math.log(67.8 * z + 5.42)\<close> and
  guards the division with \<open>denom > 0\<close>.
\<close>

definition u2_main :: "real \<Rightarrow> error + real" where
  "u2_main wind_speed =
     (case math_log (67.8 * 10 - 5.42) of
        Inl e \<Rightarrow> Inl e
      | Inr l \<Rightarrow> (case py_div 4.87 l of Inl e \<Rightarrow> Inl e | Inr c \<Rightarrow> Inr (wind_speed * c)))"

definition u2_mock :: "real \<Rightarrow> error + real" where
  "u2_mock wind_speed =
     (let z = 10
      in case math_log (67.8 * z + 5.42) of
           Inl e \<Rightarrow> Inl e
         | Inr denom \<Rightarrow>
             if 0 < denom
             then (case py_div 4.87 denom of Inl e \<Rightarrow> Inl e | Inr c \<Rightarrow> Inr (wind_speed * c))
             else Inr wind_speed)"

definition solar_declination :: "int \<Rightarrow> real" where
  "solar_declination day_of_year = 0.409 * sin ((2 * pi / 365) * of_int day_of_year - 1.39)"

text \<open>
  The argument of \<open>math.acos\<close> in the sunset hour angle: the bare product in \<open>main.py\<close>,
  \<open>main_live_data.py\<close> and \<open>et0_service.py\<close>, the product clamped to \<open>[-1, 1]\<close> in
  \<open>main_mock_data.py\<close>.
\<close>

definition sunset_arg_main :: "real \<Rightarrow> int \<Rightarrow> real" where
  "sunset_arg_main latitude day_of_year =
     - math_tan (math_radians latitude) * math_tan (solar_declination day_of_year)"

definition sunset_arg_mock :: "real \<Rightarrow> int \<Rightarrow> real" where
  "sunset_arg_mock latitude day_of_year =
     max (- 1) (min 1 (- math_tan (math_radians latitude) *
                         math_tan (solar_declination day_of_year)))"

text \<open>Extraterrestrial radiation \<open>ra\<close>, the same expression in every variant.\<close>

definition ra :: "real \<Rightarrow> int \<Rightarrow> real \<Rightarrow> real" where
  "ra latitude day_of_year sunset_angle =
     (let lat_rad = math_radians latitude;
          dr = 1 + 0.033 * cos (2 * pi * of_int day_of_year / 365)
      in 37.6 * dr * (sunset_angle * sin lat_rad * sin (solar_declination day_of_year) +
                      cos lat_rad * cos (solar_declination day_of_year) * sin sunset_angle))"

text \<open>
  The saturation vapour pressure at a temperature,
  \<open>0.6108 * math.exp((17.27 * T) / (T + 237.3))\<close>: the quotient divides by zero at
  \<open>T = -237.3\<close>, and just below that temperature the exponential overflows.
\<close>

definition saturation_vp :: "real \<Rightarrow> error + real" where
  "saturation_vp t =
     (case py_div (17.27 * t) (t + 237.3) of
        Inl e \<Rightarrow> Inl e
      | Inr q \<Rightarrow> (case math_exp q of Inl e \<Rightarrow> Inl e | Inr x \<Rightarrow> Inr (0.6108 * x)))"

text \<open>
  \<open>calculate_et0\<close> of \<open>main.py\<close> (and, with the same body, of \<open>main_live_data.py\<close>), on
  arguments that may be \<open>None\<close>, as \<open>calculate_irrigation\<close> passes what the forecast
  holds: the temperatures are added first, the humidity is needed for \<open>ea\<close> and the wind
  speed for \<open>u2\<close>.
\<close>

definition calculate_et0_main_py ::
  "real option \<Rightarrow> real option \<Rightarrow> real option \<Rightarrow> real option \<Rightarrow> real \<Rightarrow> int \<Rightarrow>
     error + real" where
  "calculate_et0_main_py temp_max temp_min humidity wind_speed latitude day_of_year =
     (case py_num temp_max of
        Inl e \<Rightarrow> Inl e
      | Inr tmax \<Rightarrow>
     (case py_num temp_min of
        Inl e \<Rightarrow> Inl e
      | Inr tmin \<Rightarrow>
     (let temp_mean = (tmax + tmin) / 2
      in case math_acos (sunset_arg_main latitude day_of_year) of
           Inl e \<Rightarrow> Inl e
         | Inr sunset_angle \<Rightarrow>
             (let rs = (0.25 + 0.5 * 1) * ra latitude day_of_year sunset_angle;
                  rn = 0.77 * rs - 0.9
              in case saturation_vp tmax of
                   Inl e \<Rightarrow> Inl e
                 | Inr e_tmax \<Rightarrow>
                     (case saturation_vp tmin of
                        Inl e \<Rightarrow> Inl e
                      | Inr e_tmin \<Rightarrow>
                     (case py_num humidity of
                        Inl e \<Rightarrow> Inl e
                      | Inr hum \<Rightarrow>
                          (let es = (e_tmax + e_tmin) / 2;
                               ea = es * (hum / 100);
                               vpd = es - ea
                           in case py_num wind_speed of
                                Inl e \<Rightarrow> Inl e
                              | Inr wind \<Rightarrow>
                             (case u2_main wind of
                                Inl e \<Rightarrow> Inl e
                              | Inr u2 \<Rightarrow>
                                  (case py_div (900 * (temp_mean + 273) * u2 * vpd)
                                          (temp_mean + 273) of
                                     Inl e \<Rightarrow> Inl e
                                   | Inr a \<Rightarrow>
                                       (case py_div (0.408 * rn + a) (1 + 0.34 * u2) of
                                          Inl e \<Rightarrow> Inl e
                                        | Inr et0 \<Rightarrow> Inr (max 0 et0)))))))))))"

text \<open>The same function on an observation of four numbers.\<close>

definition calculate_et0_main ::
  "real \<Rightarrow> real \<Rightarrow> real \<Rightarrow> real \<Rightarrow> real \<Rightarrow> int \<Rightarrow> error + real" where
  "calculate_et0_main temp_max temp_min humidity wind_speed latitude day_of_year =
     calculate_et0_main_py (Some temp_max) (Some temp_min) (Some humidity) (Some wind_speed)
       latitude day_of_year"

text \<open>
  \<open>calculate_et0\<close> of \<open>et0_service.py\<close>: the body of \<open>main.py\<close> line for line, the result
  rounded to two decimals.
\<close>

definition calculate_et0_service ::
  "real \<Rightarrow> real \<Rightarrow> real \<Rightarrow> real \<Rightarrow> real \<Rightarrow> int \<Rightarrow> error + real" where
  "calculate_et0_service temp_max temp_min humidity wind_speed latitude day_of_year =
     (case calculate_et0_main temp_max temp_min humidity wind_speed latitude day_of_year of
        Inl e \<Rightarrow> Inl e
      | Inr et0 \<Rightarrow> Inr (py_round et0 2))"

text \<open>
  \<open>calculate_et0\<close> of \<open>main_mock_data.py\<close>. Its last division stands in a
  \<open>try ... except Exception: et0 = 0.0\<close>; the two saturation pressures, the humidity and
  the wind speed are used before the \<open>try\<close>.
\<close>

definition calculate_et0_mock_py ::
  "real option \<Rightarrow> real option \<Rightarrow> real option \<Rightarrow> real option \<Rightarrow> real \<Rightarrow> int \<Rightarrow>
     error + real" where
  "calculate_et0_mock_py temp_max temp_min humidity wind_speed latitude day_of_year =
     (case py_num temp_max of
        Inl e \<Rightarrow> Inl e
      | Inr tmax \<Rightarrow>
     (case py_num temp_min of
        Inl e \<Rightarrow> Inl e
      | Inr tmin \<Rightarrow>
     (let temp_mean = (tmax + tmin) / 2
      in case math_acos (sunset_arg_mock latitude day_of_year) of
           Inl e \<Rightarrow> Inl e
         | Inr sunset_angle \<Rightarrow>
             (let rs = (0.25 + 0.5) * ra latitude day_of_year sunset_angle;
                  rn = max 0 (0.77 * rs - 0.9)
              in case saturation_vp tmax of
                   Inl e \<Rightarrow> Inl e
                 | Inr e_tmax \<Rightarrow>
                     (case saturation_vp tmin of
                        Inl e \<Rightarrow> Inl e
                      | Inr e_tmin \<Rightarrow>
                     (case py_num humidity of
                        Inl e \<Rightarrow> Inl e
                      | Inr hum \<Rightarrow>
                          (let es = (e_tmax + e_tmin) / 2;
                               ea = es * (hum / 100);
                               vpd = max 0 (es - ea)
                           in case py_num wind_speed of
                                Inl e \<Rightarrow> Inl e
                              | Inr wind \<Rightarrow>
                             (case u2_mock wind of
                                Inl e \<Rightarrow> Inl e
                              | Inr u2 \<Rightarrow>
                                  (let et0 =
                                     (case py_div 900 (temp_mean + 273) of
                                        Inl e \<Rightarrow> 0
                                      | Inr a \<Rightarrow>
                                          (case py_div (0.408 * rn + a * u2 * vpd)
                                                  (1 + 0.34 * u2) of
                                             Inl e \<Rightarrow> 0
                                           | Inr v \<Rightarrow> v))
                                   in Inr (max 0 et0))))))))))"

text \<open>The same function on an observation of four numbers.\<close>

definition calculate_et0_mock ::
  "real \<Rightarrow> real \<Rightarrow> real \<Rightarrow> real \<Rightarrow> real \<Rightarrow> int \<Rightarrow> error + real" where
  "calculate_et0_mock temp_max temp_min humidity wind_speed latitude day_of_year =
     calculate_et0_mock_py (Some temp_max) (Some temp_min) (Some humidity) (Some wind_speed)
       latitude day_of_year"

section \<open>Crop coefficient\<close>

definition base_kc :: "string \<rightharpoonup> real" where
  "base_kc = [''initial'' \<mapsto> 0.50, ''mid'' \<mapsto> 0.65, ''late'' \<mapsto> 0.60]"

text \<open>\<open>calculate_crop_coefficient\<close> of \<open>main.py\<close> and \<open>main_live_data.py\<close>.\<close>

definition calculate_crop_coefficient_main :: "real \<Rightarrow> string \<Rightarrow> real" where
  "calculate_crop_coefficient_main ndvi_score growth_stage =
     (let adjustment =
            (if ndvi_score < 0.3 then 0.15
             else if ndvi_score < 0.5 then 0.10
             else if ndvi_score < 0.7 then 0.05
             else 0.0)
      in dict_get (base_kc growth_stage) 0.65 + adjustment)"

text \<open>\<open>calculate_crop_coefficient\<close> of \<open>main_mock_data.py\<close>, which clamps.\<close>

definition calculate_crop_coefficient_mock :: "real \<Rightarrow> string \<Rightarrow> real" where
  "calculate_crop_coefficient_mock ndvi_score growth_stage =
     (let adjustment =
            (if ndvi_score < 0.3 then 0.15
             else if ndvi_score < 0.5 then 0.10
             else if ndvi_score < 0.7 then 0.05
             else 0.0);
          kc = dict_get (base_kc growth_stage) 0.65 + adjustment
      in min (max kc 0.4) 0.85)"

section \<open>Irrigation pipeline\<close>

text \<open>
  \<open>calculate_irrigation\<close> is modelled from the point where the request has been read and
  the weather fetched: its arguments are the weather, the latitude, the area in hectares,
  the number of trees, the vegetation index and the day of the year of the request. The
  weather is a success flag, the current conditions and the daily forecast, whose
  dictionaries are records of entries. The response of \<open>main.py\<close> for failed weather,
  an HTTP error and not an exception, is the error value \<open>WeatherUnavailable\<close>.
\<close>

record current_conditions =
  cur_temperature :: "real entry"
  cur_humidity :: "real entry"
  cur_wind_speed :: "real entry"
  cur_weather :: "string entry"

record forecast_day =
  fc_temp_max :: "real entry"
  fc_temp_min :: "real entry"
  fc_humidity :: "real entry"
  fc_wind_speed :: "real entry"
  fc_weather :: "string entry"
  fc_rain_probability :: "real entry"

record weather_data =
  w_success :: bool
  w_current :: current_conditions
  w_forecast :: "forecast_day list"

text \<open>
  The steps of the water balance, named after the variables of the source.
  \<open>expected_rain\<close> is \<open>sum(day.get('rain_probability', 0) / 100 * 5 for day in forecast)\<close>,
  which raises at the first day whose probability is \<open>None\<close>.
\<close>

fun expected_rain :: "forecast_day list \<Rightarrow> error + real" where
  "expected_rain [] = Inr 0"
| "expected_rain (day # rest) =
     (case py_num (entry_get (fc_rain_probability day) (Some 0)) of
        Inl e \<Rightarrow> Inl e
      | Inr p \<Rightarrow>
          (case expected_rain rest of
             Inl e \<Rightarrow> Inl e
           | Inr r \<Rightarrow> Inr (p / 100 * 5 + r)))"

definition net_irrigation_mm :: "real \<Rightarrow> real \<Rightarrow> real \<Rightarrow> real" where
  "net_irrigation_mm total_et0 kc rain = (let etc = total_et0 * kc in max 0 (etc - rain))"

definition area_m2_main :: "real \<Rightarrow> real" where
  "area_m2_main size_hectares = size_hectares * 10000"

definition area_m2_mock :: "real \<Rightarrow> real" where
  "area_m2_mock size_hectares = max 0 size_hectares * 10000"

definition irrigation_m3 :: "real \<Rightarrow> real \<Rightarrow> real" where
  "irrigation_m3 net_mm area_m2 = (net_mm / 1000) * area_m2"

definition irrigation_liters :: "real \<Rightarrow> real" where
  "irrigation_liters m3 = m3 * 1000"

definition liters_per_tree :: "real \<Rightarrow> int \<Rightarrow> real" where
  "liters_per_tree liters tree_count =
     (if 0 < tree_count then liters / of_int tree_count else 0)"

definition traditional_m3 :: "real \<Rightarrow> real" where
  "traditional_m3 m3 = m3 * 1.5"

definition hours_per_tree :: "real \<Rightarrow> real" where
  "hours_per_tree lpt = (if 0 < lpt then lpt / 4 else 0)"

text \<open>Health status and urgency from the vegetation index.\<close>

definition health_status :: "real \<Rightarrow> string \<times> string" where
  "health_status ndvi_score =
     (if ndvi_score < 0.3 then (''Critical - High Stress'', ''urgent'')
      else if ndvi_score < 0.5 then (''Moderate Stress'', ''high'')
      else if ndvi_score < 0.7 then (''Healthy'', ''normal'')
      else (''Excellent'', ''low''))"

text \<open>
  The unrounded quantities that \<open>calculate_irrigation\<close> computes before it calls
  \<open>calculate_water_savings\<close> and builds the response.
\<close>

record irrigation_plan =
  p_total_et0 :: real
  p_kc :: real
  p_expected_rain :: real
  p_net_irrigation_mm :: real
  p_irrigation_m3 :: real
  p_irrigation_liters :: real
  p_liters_per_tree :: real
  p_traditional_m3 :: real
  p_hours_per_tree :: real

text \<open>
  The response. The constant \<open>schedule\<close>, the \<open>message\<close> and the formatted
  \<open>efficiency_improvement\<close> are left out; \<open>forecast_summary\<close> is the list of the
  strings that the source joins.
\<close>

record response =
  resp_irrigation_needed_mm :: real
  resp_irrigation_needed_m3 :: real
  resp_irrigation_needed_liters :: real
  resp_liters_per_tree :: real
  resp_duration_hours_per_tree :: real
  resp_urgency :: string
  resp_ndvi_score :: real
  resp_status :: string
  resp_kc_coefficient :: real
  resp_total_et0_mm :: real
  resp_expected_rain_mm :: real
  resp_current_temp :: "real option"
  resp_forecast_summary :: "string list"
  resp_savings :: savings_report
  resp_traditional_method_m3 :: real
  resp_smart_method_m3 :: real

record response_mock = response +
  resp_weather_fetch_success :: bool

subsection \<open>The pipeline of \<open>main.py\<close>\<close>

text \<open>The loop over the forecast: \<open>day['temp_max']\<close> and the like raise on an absent key.\<close>

fun et0_loop_main :: "real \<Rightarrow> int \<Rightarrow> forecast_day list \<Rightarrow> real \<Rightarrow> error + real" where
  "et0_loop_main lat day_of_year [] total_et0 = Inr total_et0"
| "et0_loop_main lat day_of_year (day # rest) total_et0 =
     (case entry_index (fc_temp_max day) of
        Inl e \<Rightarrow> Inl e
      | Inr tmax \<Rightarrow>
          (case entry_index (fc_temp_min day) of
             Inl e \<Rightarrow> Inl e
           | Inr tmin \<Rightarrow>
               (case entry_index (fc_humidity day) of
                  Inl e \<Rightarrow> Inl e
                | Inr hum \<Rightarrow>
                    (case entry_index (fc_wind_speed day) of
                       Inl e \<Rightarrow> Inl e
                     | Inr wind \<Rightarrow>
                         (case calculate_et0_main_py tmax tmin hum wind lat day_of_year of
                            Inl e \<Rightarrow> Inl e
                          | Inr et0 \<Rightarrow>
                              et0_loop_main lat (day_of_year + 1) rest (total_et0 + et0))))))"

definition irrigation_plan_main ::
  "weather_data \<Rightarrow> real \<Rightarrow> real \<Rightarrow> int \<Rightarrow> real \<Rightarrow> int \<Rightarrow> error + irrigation_plan" where
  "irrigation_plan_main weather lat size_hectares tree_count ndvi_score today =
     (if \<not> w_success weather then Inl WeatherUnavailable
      else
        (let forecast = take 3 (w_forecast weather)
         in case et0_loop_main lat today forecast 0 of
              Inl e \<Rightarrow> Inl e
            | Inr total_et0 \<Rightarrow>
                (let kc = calculate_crop_coefficient_main ndvi_score ''mid''
                 in case expected_rain forecast of
                      Inl e \<Rightarrow> Inl e
                    | Inr rain \<Rightarrow>
                        (let net = net_irrigation_mm total_et0 kc rain;
                             m3 = irrigation_m3 net (area_m2_main size_hectares);
                             liters = irrigation_liters m3;
                             lpt = liters_per_tree liters tree_count
                         in Inr \<lparr>p_total_et0 = total_et0, p_kc = kc,
                                 p_expected_rain = rain,
                                 p_net_irrigation_mm = net, p_irrigation_m3 = m3,
                                 p_irrigation_liters = liters, p_liters_per_tree = lpt,
                                 p_traditional_m3 = traditional_m3 m3,
                                 p_hours_per_tree = hours_per_tree lpt\<rparr>))))"

text \<open>
  The formatted string of \<open>forecast[0]['weather']\<close>, \<open>forecast[1]['weather']\<close> and
  \<open>forecast[2]['weather']\<close>, evaluated in this order: \<open>forecast[i]\<close> raises \<open>IndexError\<close>
  past the end of the list, then \<open>['weather']\<close> raises \<open>KeyError\<close> on an absent key. A
  value \<open>None\<close> is formatted as the text \<open>None\<close>.
\<close>

definition forecast_weather :: "forecast_day list \<Rightarrow> nat \<Rightarrow> error + string option" where
  "forecast_weather forecast i =
     (if i < length forecast then entry_index (fc_weather (forecast ! i)) else Inl IndexError)"

definition format_value :: "string option \<Rightarrow> string" where
  "format_value v = (case v of None \<Rightarrow> ''None'' | Some s \<Rightarrow> s)"

definition forecast_summary_main :: "forecast_day list \<Rightarrow> error + string list" where
  "forecast_summary_main forecast =
     (case forecast_weather forecast 0 of
        Inl e \<Rightarrow> Inl e
      | Inr s0 \<Rightarrow>
          (case forecast_weather forecast 1 of
             Inl e \<Rightarrow> Inl e
           | Inr s1 \<Rightarrow>
               (case forecast_weather forecast 2 of
                  Inl e \<Rightarrow> Inl e
                | Inr s2 \<Rightarrow> Inr [format_value s0, format_value s1, format_value s2])))"

definition calculate_irrigation_main ::
  "weather_data \<Rightarrow> real \<Rightarrow> real \<Rightarrow> int \<Rightarrow> real \<Rightarrow> int \<Rightarrow> error + response" where
  "calculate_irrigation_main weather lat size_hectares tree_count ndvi_score today =
     (case irrigation_plan_main weather lat size_hectares tree_count ndvi_score today of
        Inl e \<Rightarrow> Inl e
      | Inr p \<Rightarrow>
          (case calculate_water_savings_main (p_traditional_m3 p) (p_irrigation_m3 p) of
             Inl e \<Rightarrow> Inl e
           | Inr savings \<Rightarrow>
               (case entry_index (cur_temperature (w_current weather)) of
                  Inl e \<Rightarrow> Inl e
                | Inr temperature \<Rightarrow>
                    (case forecast_summary_main (take 3 (w_forecast weather)) of
                       Inl e \<Rightarrow> Inl e
                     | Inr summary \<Rightarrow>
                         Inr \<lparr>resp_irrigation_needed_mm = py_round (p_net_irrigation_mm p) 2,
                              resp_irrigation_needed_m3 = py_round (p_irrigation_m3 p) 2,
                              resp_irrigation_needed_liters = py_round (p_irrigation_liters p) 2,
                              resp_liters_per_tree = py_round (p_liters_per_tree p) 2,
                              resp_duration_hours_per_tree = py_round (p_hours_per_tree p) 2,
                              resp_urgency = snd (health_status ndvi_score),
                              resp_ndvi_score = ndvi_score,
                              resp_status = fst (health_status ndvi_score),
                              resp_kc_coefficient = py_round (p_kc p) 3,
                              resp_total_et0_mm = py_round (p_total_et0 p) 2,
                              resp_expected_rain_mm = py_round (p_expected_rain p) 2,
                              resp_current_temp = temperature,
                              resp_forecast_summary = summary,
                              resp_savings = savings,
                              resp_traditional_method_m3 = py_round (p_traditional_m3 p) 2,
                              resp_smart_method_m3 = py_round (p_irrigation_m3 p) 2\<rparr>))))"

subsection \<open>The pipeline of \<open>main_mock_data.py\<close>\<close>

text \<open>
  The day that replaces an empty forecast. Each of its keys is bound to what
  \<open>current.get\<close> yields, which is \<open>None\<close> when the current conditions hold \<open>None\<close>.
\<close>

definition fallback_day :: "current_conditions \<Rightarrow> forecast_day" where
  "fallback_day current =
     \<lparr>fc_temp_max = entry_of (entry_get (cur_temperature current) (Some 28)),
      fc_temp_min = entry_of (entry_get (cur_temperature current) (Some 20)),
      fc_humidity = entry_of (entry_get (cur_humidity current) (Some 65)),
      fc_wind_speed = entry_of (entry_get (cur_wind_speed current) (Some 3.5)),
      fc_weather = entry_of (entry_get (cur_weather current) (Some ''Clear'')),
      fc_rain_probability = Val 0\<rparr>"

definition forecast_mock :: "weather_data \<Rightarrow> forecast_day list" where
  "forecast_mock weather =
     (let forecast = take 3 (w_forecast weather)
      in if forecast = [] then [fallback_day (w_current weather)] else forecast)"

fun et0_loop_mock :: "real \<Rightarrow> int \<Rightarrow> forecast_day list \<Rightarrow> real \<Rightarrow> error + real" where
  "et0_loop_mock lat day_of_year [] total_et0 = Inr total_et0"
| "et0_loop_mock lat day_of_year (day # rest) total_et0 =
     (case calculate_et0_mock_py
             (entry_get (fc_temp_max day) (Some 28)) (entry_get (fc_temp_min day) (Some 18))
             (entry_get (fc_humidity day) (Some 65)) (entry_get (fc_wind_speed day) (Some 3.5))
             lat day_of_year of
        Inl e \<Rightarrow> Inl e
      | Inr et0 \<Rightarrow> et0_loop_mock lat (day_of_year + 1) rest (total_et0 + et0))"

definition irrigation_plan_mock ::
  "weather_data \<Rightarrow> real \<Rightarrow> real \<Rightarrow> int \<Rightarrow> real \<Rightarrow> int \<Rightarrow> error + irrigation_plan" where
  "irrigation_plan_mock weather lat size_hectares tree_count ndvi_score today =
     (let forecast = forecast_mock weather
      in case et0_loop_mock lat today forecast 0 of
           Inl e \<Rightarrow> Inl e
         | Inr total_et0 \<Rightarrow>
             (let kc = calculate_crop_coefficient_mock ndvi_score ''mid''
              in case expected_rain forecast of
                   Inl e \<Rightarrow> Inl e
                 | Inr rain \<Rightarrow>
                     (let net = net_irrigation_mm total_et0 kc rain;
                          m3 = irrigation_m3 net (area_m2_mock size_hectares);
                          liters = irrigation_liters m3;
                          lpt = liters_per_tree liters tree_count
                      in Inr \<lparr>p_total_et0 = total_et0, p_kc = kc,
                              p_expected_rain = rain,
                              p_net_irrigation_mm = net, p_irrigation_m3 = m3,
                              p_irrigation_liters = liters, p_liters_per_tree = lpt,
                              p_traditional_m3 = traditional_m3 m3,
                              p_hours_per_tree = hours_per_tree lpt\<rparr>)))"

text \<open>
  The strings joined by \<open>forecast_summary\<close>: \<open>d.get('weather', '')\<close> over
  \<open>(forecast + [{}])[:3]\<close>. \<open>str.join\<close> raises \<open>TypeError\<close> on an item that is \<open>None\<close>.
\<close>

definition empty_day :: forecast_day where
  "empty_day =
     \<lparr>fc_temp_max = Absent, fc_temp_min = Absent, fc_humidity = Absent,
      fc_wind_speed = Absent, fc_weather = Absent, fc_rain_probability = Absent\<rparr>"

fun str_join :: "string option list \<Rightarrow> error + string list" where
  "str_join [] = Inr []"
| "str_join (None # rest) = Inl TypeError"
| "str_join (Some s # rest) =
     (case str_join rest of Inl e \<Rightarrow> Inl e | Inr ss \<Rightarrow> Inr (s # ss))"

definition forecast_summary_mock :: "forecast_day list \<Rightarrow> error + string list" where
  "forecast_summary_mock forecast =
     str_join (map (\<lambda>d. entry_get (fc_weather d) (Some [])) (take 3 (forecast @ [empty_day])))"

definition calculate_irrigation_mock ::
  "weather_data \<Rightarrow> real \<Rightarrow> real \<Rightarrow> int \<Rightarrow> real \<Rightarrow> int \<Rightarrow> error + response_mock" where
  "calculate_irrigation_mock weather lat size_hectares tree_count ndvi_score today =
     (case irrigation_plan_mock weather lat size_hectares tree_count ndvi_score today of
        Inl e \<Rightarrow> Inl e
      | Inr p \<Rightarrow>
          (case calculate_water_savings_mock (p_traditional_m3 p) (p_irrigation_m3 p) of
             Inl e \<Rightarrow> Inl e
           | Inr savings \<Rightarrow>
               (case forecast_summary_mock (forecast_mock weather) of
                  Inl e \<Rightarrow> Inl e
                | Inr summary \<Rightarrow>
                    Inr \<lparr>resp_irrigation_needed_mm = py_round (p_net_irrigation_mm p) 2,
                         resp_irrigation_needed_m3 = py_round (p_irrigation_m3 p) 3,
                         resp_irrigation_needed_liters = py_round (p_irrigation_liters p) 2,
                         resp_liters_per_tree = py_round (p_liters_per_tree p) 2,
                         resp_duration_hours_per_tree = py_round (p_hours_per_tree p) 2,
                         resp_urgency = snd (health_status ndvi_score),
                         resp_ndvi_score = py_round ndvi_score 3,
                         resp_status = fst (health_status ndvi_score),
                         resp_kc_coefficient = py_round (p_kc p) 3,
                         resp_total_et0_mm = py_round (p_total_et0 p) 2,
                         resp_expected_rain_mm = py_round (p_expected_rain p) 2,
                         resp_current_temp = entry_get (cur_temperature (w_current weather)) None,
                         resp_forecast_summary = summary,
                         resp_savings = savings,
                         resp_traditional_method_m3 = py_round (p_traditional_m3 p) 3,
                         resp_smart_method_m3 = py_round (p_irrigation_m3 p) 3,
                         resp_weather_fetch_success = w_success weather\<rparr>)))"

section \<open>A forecast to run the pipelines on\<close>

text \<open>Three clear days without rain, at 30 and 20 degrees, 60 percent humidity, wind 3.2 m/s.\<close>

definition clear_day :: forecast_day where
  "clear_day =
     \<lparr>fc_temp_max = Val 30, fc_temp_min = Val 20, fc_humidity = Val 60,
      fc_wind_speed = Val 3.2, fc_weather = Val ''Clear'', fc_rain_probability = Val 0\<rparr>"

definition clear_weather :: weather_data where
  "clear_weather =
     \<lparr>w_success = True,
      w_current = \<lparr>cur_temperature = Val 28, cur_humidity = Val 65,
                   cur_wind_speed = Val 3.5, cur_weather = Val ''Clear''\<rparr>,
      w_forecast = [clear_day, clear_day, clear_day]\<rparr>"

section \<open>Binary64 rounding\<close>

text \<open>
  Where the last bit of a float decides what is reported, the rounding of each operation is
  written out. \<open>binary64 x\<close> is the double nearest to \<open>x\<close>, a tie going to the even
  mantissa: a multiple of \<open>2^(e - 52)\<close> for \<open>x\<close> in the binade \<open>[2^e, 2^(e+1))\<close>, and
  a multiple of \<open>2^(-1074)\<close> below \<open>2^(-1022)\<close>, where the doubles are subnormal.
  Overflow is not modelled: the model is that of the program for magnitudes below \<open>2^1024\<close>.
  A decimal literal, a difference, a product and a quotient are each rounded once;
  the literals 0.5, 1.5, 100 and 1000 are doubles already. \<open>round(x, 2)\<close> selects the
  two-decimal number nearest to the exact value of \<open>x\<close>, which \<open>py_round\<close> computes;
  the float returned is the double nearest to that decimal, and the report shows the decimal.
\<close>

definition pow2 :: "int \<Rightarrow> real" where
  "pow2 e = (if 0 \<le> e then 2 ^ nat e else 1 / 2 ^ nat (- e))"

definition binary64 :: "real \<Rightarrow> real" where
  "binary64 x =
     (if x = 0 then 0
      else (let e = max \<lfloor>log 2 \<bar>x\<bar>\<rfloor> (- 1022) - 52
            in of_int (round_half_even (x / pow2 e)) * pow2 e))"

text \<open>\<open>traditional_m3 = irrigation_m3 * 1.5\<close> on doubles: 1.5 is a double, the product is rounded.\<close>

definition traditional_m3_f64 :: "real \<Rightarrow> real" where
  "traditional_m3_f64 m3 = binary64 (m3 * 1.5)"

text \<open>\<open>calculate_water_savings\<close> of \<open>main.py\<close> on doubles.\<close>

definition calculate_water_savings_main_f64 :: "real \<Rightarrow> real \<Rightarrow> error + savings_report" where
  "calculate_water_savings_main_f64 traditional_amount smart_amount =
     (let saved = binary64 (traditional_amount - smart_amount);
          water_saved_liters = binary64 (saved * 1000)
      in case py_div saved traditional_amount of
           Inl e \<Rightarrow> Inl e
         | Inr q \<Rightarrow>
             (let percentage_saved = binary64 (binary64 q * 100);
                  cost_saved_tnd = binary64 (water_saved_liters * binary64 0.0005)
              in Inr \<lparr>water_saved_liters = py_round water_saved_liters 2,
                      water_saved_cubic_meters = py_round saved 2,
                      percentage_saved = py_round percentage_saved 2,
                      cost_saved_tnd = py_round cost_saved_tnd 2,
                      cost_saved_usd = py_round (binary64 (cost_saved_tnd * binary64 0.32)) 2\<rparr>))"

text \<open>\<open>calculate_water_savings\<close> of \<open>main_mock_data.py\<close> on doubles.\<close>

definition calculate_water_savings_mock_f64 :: "real \<Rightarrow> real \<Rightarrow> error + savings_report" where
  "calculate_water_savings_mock_f64 traditional_amount smart_amount =
     (if traditional_amount \<le> 0 \<or> smart_amount < 0 then Inr zero_report
      else
        (let water_saved_m3 = max 0 (binary64 (traditional_amount - smart_amount));
             water_saved_liters = binary64 (water_saved_m3 * 1000)
         in case (if 0 < traditional_amount
                  then (case py_div water_saved_m3 traditional_amount of
                          Inl e \<Rightarrow> Inl e
                        | Inr q \<Rightarrow> Inr (binary64 (binary64 q * 100)))
                  else Inr 0) of
              Inl e \<Rightarrow> Inl e
            | Inr p \<Rightarrow>
                (let percentage_saved = p;
                     cost_saved_tnd = binary64 (water_saved_m3 * 0.5);
                     cost_saved_usd = binary64 (cost_saved_tnd * binary64 0.32)
                 in Inr \<lparr>water_saved_liters = py_round water_saved_liters 2,
                         water_saved_cubic_meters = py_round water_saved_m3 2,
                         percentage_saved = py_round percentage_saved 2,
                         cost_saved_tnd = py_round cost_saved_tnd 2,
                         cost_saved_usd = py_round cost_saved_usd 2\<rparr>)))"

section \<open>Rounding\<close>

lemma py_round_zero: "py_round 0 n = 0"
  by (simp add: py_round_def round_half_even_def)

lemma round_half_even_nonneg: "0 \<le> r \<Longrightarrow> 0 \<le> round_half_even r"
  by (simp add: round_half_even_def Let_def)

lemma py_round_nonneg: "0 \<le> x \<Longrightarrow> 0 \<le> py_round x n"
  by (simp add: py_round_def round_half_even_nonneg)

lemma py_round_third: "py_round (100 / 3) 2 = 33.33"
  by (simp add: py_round_def round_half_even_def Let_def)

section \<open>The savings computation\<close>

lemma calculate_water_savings_main_eq:
  "t \<noteq> 0 \<Longrightarrow> calculate_water_savings_main t s =
     Inr \<lparr>water_saved_liters = py_round ((t - s) * 1000) 2,
          water_saved_cubic_meters = py_round (t - s) 2,
          percentage_saved = py_round ((t - s) / t * 100) 2,
          cost_saved_tnd = py_round ((t - s) * 1000 * 0.0005) 2,
          cost_saved_usd = py_round ((t - s) * 1000 * 0.0005 * 0.32) 2\<rparr>"
  unfolding calculate_water_savings_main_def Let_def py_div_def by simp

lemma calculate_water_savings_mock_eq:
  "0 < t \<Longrightarrow> 0 \<le> s \<Longrightarrow> calculate_water_savings_mock t s =
     Inr \<lparr>water_saved_liters = py_round (max 0 (t - s) * 1000) 2,
          water_saved_cubic_meters = py_round (max 0 (t - s)) 2,
          percentage_saved = py_round (max 0 (t - s) / t * 100) 2,
          cost_saved_tnd = py_round (max 0 (t - s) * 0.5) 2,
          cost_saved_usd = py_round (max 0 (t - s) * 0.5 * 0.32) 2\<rparr>"
  unfolding calculate_water_savings_mock_def Let_def py_div_def by simp

text \<open>The guarded variant of \<open>main_mock_data.py\<close> returns the all-zero report and never raises.\<close>

lemma calculate_water_savings_mock_guard:
  "traditional_amount \<le> 0 \<or> smart_amount < 0 \<Longrightarrow>
     calculate_water_savings_mock traditional_amount smart_amount = Inr zero_report"
  by (simp add: calculate_water_savings_mock_def)

lemma calculate_water_savings_mock_returns:
  "\<exists>r. calculate_water_savings_mock t s = Inr r"
  by (simp add: calculate_water_savings_mock_def Let_def py_div_def)

text \<open>
  C1. For \<open>traditional \<le> 0\<close> or \<open>smart < 0\<close> the water-savings computation returns the
  all-zero report and raises nothing. \<open>main_mock_data.py\<close> does so
  (\<open>calculate_water_savings_mock_guard\<close>). \<open>main.py\<close>, \<open>main_live_data.py\<close> and
  \<open>savings_service.py\<close> have no guard: with a baseline of zero, which
  \<open>calculate_irrigation\<close> passes whenever the net irrigation depth is zero, their division
  raises \<open>ZeroDivisionError\<close>.
\<close>

theorem calculate_water_savings_main_zero_baseline:
  "calculate_water_savings_main 0 0 = Inl ZeroDivisionError"
  by (simp add: calculate_water_savings_main_def py_div_def)

text \<open>
  C10, amended. In exact arithmetic the two cost formulas agree:
  \<open>(s * 1000) * 0.0005 = s * 0.5\<close> for the saved volume \<open>s\<close>, so on equal saved volumes
  the variant of \<open>main.py\<close> (which returns when its baseline is not zero) and the variant
  of \<open>main_mock_data.py\<close> (past its guard, with a saving that is not negative) report the
  same \<open>cost_saved_tnd\<close> and the same \<open>cost_saved_usd\<close>. What the rounding of doubles
  does to the two reports is the subject of the last section.
\<close>

theorem cost_saved_variants_agree:
  assumes "t1 \<noteq> 0" and "0 < t2" and "0 \<le> s2" and "s2 \<le> t2" and "t1 - s1 = t2 - s2"
  shows "\<exists>r1 r2. calculate_water_savings_main t1 s1 = Inr r1 \<and>
           calculate_water_savings_mock t2 s2 = Inr r2 \<and>
           cost_saved_tnd r1 = py_round ((t1 - s1) * 0.5) 2 \<and>
           cost_saved_tnd r1 = cost_saved_tnd r2 \<and>
           cost_saved_usd r1 = cost_saved_usd r2"
proof -
  have m: "max 0 (t2 - s2) = t2 - s2" using assms(4) by simp
  have e: "(t2 - s2) * 1000 * 0.0005 = (t2 - s2) * 0.5" by simp
  show ?thesis
    by (simp only: calculate_water_savings_main_eq[OF assms(1)]
        calculate_water_savings_mock_eq[OF assms(2,3)] assms(5) m e) simp
qed

theorem cost_saved_variants_agree_witness:
  "\<exists>r1 r2. calculate_water_savings_main 150 100 = Inr r1 \<and>
           calculate_water_savings_mock 150 100 = Inr r2 \<and>
           cost_saved_tnd r1 = py_round ((150 - 100) * 0.5) 2 \<and>
           cost_saved_tnd r1 = cost_saved_tnd r2 \<and>
           cost_saved_usd r1 = cost_saved_usd r2"
  using cost_saved_variants_agree[of 150 150 100 100] by simp

section \<open>The crop coefficient\<close>

lemma base_kc_range:
  "0.5 \<le> dict_get (base_kc s) 0.65 \<and> dict_get (base_kc s) 0.65 \<le> 0.65"
  by (simp add: base_kc_def dict_get_def)

text \<open>A stage outside the table takes the base of \<open>mid\<close>.\<close>

lemma base_kc_fallback:
  "growth_stage \<notin> {''initial'', ''mid'', ''late''} \<Longrightarrow>
     dict_get (base_kc growth_stage) 0.65 = dict_get (base_kc ''mid'') 0.65"
  by (simp add: base_kc_def dict_get_def)

text \<open>The two scenarios of the specification: no clamping is triggered.\<close>

lemma calculate_crop_coefficient_scenarios:
  "calculate_crop_coefficient_mock 0.45 ''mid'' = 0.75"
  "calculate_crop_coefficient_main 0.45 ''mid'' = 0.75"
  "calculate_crop_coefficient_mock 0.2 ''initial'' = 0.65"
  "calculate_crop_coefficient_main 0.2 ''initial'' = 0.65"
  by (simp_all add: calculate_crop_coefficient_mock_def calculate_crop_coefficient_main_def
      base_kc_def dict_get_def)

text \<open>
  C4. For every ndvi (in particular every ndvi in \<open>[0, 1]\<close>) and every growth-stage string,
  recognised or not, the crop coefficient lies in \<open>[0.40, 0.85]\<close>: in
  \<open>main_mock_data.py\<close>, which clamps, and in \<open>main.py\<close>, whose base and adjustment
  tables stay inside the band.
\<close>

theorem calculate_crop_coefficient_range:
  "0.40 \<le> calculate_crop_coefficient_mock ndvi stage \<and>
   calculate_crop_coefficient_mock ndvi stage \<le> 0.85 \<and>
   0.40 \<le> calculate_crop_coefficient_main ndvi stage \<and>
   calculate_crop_coefficient_main ndvi stage \<le> 0.85"
  using base_kc_range[of stage]
  by (simp add: calculate_crop_coefficient_main_def calculate_crop_coefficient_mock_def Let_def)

section \<open>The wind speed at 2 m\<close>

lemma ln_672_pos: "0 < ln (67.8 * 10 - 5.42 :: real)"
  by (simp add: ln_gt_zero)

lemma ln_683_pos: "0 < ln (67.8 * 10 + 5.42 :: real)"
  by (simp add: ln_gt_zero)

lemma u2_main_eq: "u2_main w = Inr (w * 4.87 / ln (67.8 * 10 - 5.42))"
  using ln_672_pos by (simp add: u2_main_def math_log_def py_div_def)

lemma u2_mock_eq: "u2_mock w = Inr (w * 4.87 / ln (67.8 * 10 + 5.42))"
  using ln_683_pos by (simp add: u2_mock_def math_log_def py_div_def)

text \<open>
  C6. In every implementation \<open>u2 = wind_speed * 4.87 / ln (67.8 * 10 - 5.42)\<close>.
  \<open>main.py\<close>, \<open>main_live_data.py\<close> and \<open>et0_service.py\<close> compute this (\<open>u2_main_eq\<close>).
  \<open>main_mock_data.py\<close> takes the logarithm of \<open>67.8 * 10 + 5.42\<close>: at wind speed 1 its
  \<open>u2\<close> is \<open>4.87 / ln 683.42\<close>, not \<open>4.87 / ln 672.58\<close>.
\<close>

theorem u2_mock_differs:
  "u2_mock 1 = Inr (1 * 4.87 / ln (67.8 * 10 + 5.42)) \<and>
   u2_mock 1 \<noteq> Inr (1 * 4.87 / ln (67.8 * 10 - 5.42))"
proof -
  have "ln (67.8 * 10 + 5.42 :: real) \<noteq> ln (67.8 * 10 - 5.42)"
    by (subst ln_inj_iff) simp_all
  then show ?thesis
    using ln_672_pos ln_683_pos by (simp add: u2_mock_eq field_simps)
qed

section \<open>The sunset hour angle\<close>

text \<open>Away from its poles \<open>math.tan\<close> is the real tangent.\<close>

lemma math_tan_eq: "cos x \<noteq> 0 \<Longrightarrow> math_tan x = tan x"
  by (simp add: math_tan_def)

lemma sunset_arg_mock_range:
  "- 1 \<le> sunset_arg_mock latitude day_of_year \<and> sunset_arg_mock latitude day_of_year \<le> 1"
  by (simp add: sunset_arg_mock_def)

lemma math_acos_mock:
  "math_acos (sunset_arg_mock latitude day_of_year) =
     Inr (arccos (sunset_arg_mock latitude day_of_year))"
  using sunset_arg_mock_range[of latitude day_of_year] by (simp add: math_acos_def)

lemma sin_ge_half:
  assumes "pi / 6 \<le> a" and "a \<le> 5 * pi / 6"
  shows "1 / 2 \<le> sin (a::real)"
proof (cases "a \<le> pi / 2")
  case True
  have "sin (pi / 6) \<le> sin a"
    using assms True by (intro sin_monotone_2pi_le) simp_all
  then show ?thesis by (simp add: sin_30)
next
  case False
  have "sin (pi / 6) \<le> sin (pi - a)"
    using assms False by (intro sin_monotone_2pi_le) simp_all
  then show ?thesis by (simp add: sin_30)
qed

text \<open>Day 160 lies near the June solstice: the declination is at least 0.2045 rad.\<close>

lemma declination_160:
  "0.2045 \<le> solar_declination 160" "solar_declination 160 \<le> 0.409"
proof -
  let ?a = "(2 * pi / 365) * of_int 160 - 1.39 :: real"
  have "pi / 6 \<le> ?a" using pi_ge_two by simp
  moreover have "?a \<le> 5 * pi / 6" using pi_less_4 by simp
  ultimately have "1 / 2 \<le> sin ?a" by (rule sin_ge_half)
  then show "0.2045 \<le> solar_declination 160" by (simp add: solar_declination_def)
  have "sin ?a \<le> 1" by simp
  then show "solar_declination 160 \<le> 0.409" unfolding solar_declination_def by simp
qed

lemma tan_prod_gt_one:
  assumes L: "0 < L" "L < pi / 2" and D: "0 < D" "D < pi / 2" and S: "pi / 2 < L + D"
  shows "1 < tan L * tan (D::real)"
proof -
  have cL: "0 < cos L" using L by (simp add: cos_gt_zero)
  have cD: "0 < cos D" using D by (simp add: cos_gt_zero)
  have "cos (L + D) < cos (pi / 2)"
    using L D S by (intro cos_monotone_0_pi) simp_all
  then have "cos L * cos D < sin L * sin D" by (simp add: cos_add)
  then have "1 < (sin L * sin D) / (cos L * cos D)" using cL cD by simp
  then show ?thesis by (simp add: tan_def)
qed

lemma sunset_arg_main_85_160: "sunset_arg_main 85 160 < - 1"
proof -
  let ?L = "math_radians 85" and ?D = "solar_declination 160"
  have L: "0 < ?L" "?L < pi / 2" by (simp_all add: math_radians_def)
  have D: "0 < ?D" "?D < pi / 2" using declination_160 pi_ge_two by simp_all
  have "0 < cos ?L" using L by (simp add: cos_gt_zero)
  then have tL: "math_tan ?L = tan ?L" by (intro math_tan_eq) simp
  have "0 < cos ?D" using D by (simp add: cos_gt_zero)
  then have tD: "math_tan ?D = tan ?D" by (intro math_tan_eq) simp
  have "pi / 2 - ?L = pi / 36" by (simp add: math_radians_def)
  then have "pi / 2 < ?L + ?D" using declination_160(1) pi_less_4 by simp
  from tan_prod_gt_one[OF L D this] show ?thesis by (simp add: sunset_arg_main_def tL tD)
qed

text \<open>
  C2. For every latitude in \<open>[-90, 90]\<close> and every day in \<open>[1, 366]\<close> the argument of the
  arc-cosine lies in \<open>[-1, 1]\<close>, so that ET0 raises no math domain error.
  \<open>main_mock_data.py\<close> clamps the argument (\<open>sunset_arg_mock_range\<close>, for every latitude
  and day). \<open>main.py\<close>, \<open>main_live_data.py\<close> and \<open>et0_service.py\<close> pass the bare product:
  at latitude 85 on day 160 (polar day) it is below \<open>-1\<close> and \<open>math.acos\<close> raises.
\<close>

theorem calculate_et0_main_domain_error:
  "calculate_et0_main 30 20 60 3.2 85 160 = Inl ValueError"
  using sunset_arg_main_85_160
  by (simp add: calculate_et0_main_def calculate_et0_main_py_def py_num_def math_acos_def)

section \<open>Reference evapotranspiration is not negative\<close>

text \<open>
  Above \<open>-237.3\<close> degrees the Tetens quotient is below 17.27 and its exponential is far
  from the largest double. At \<open>-237.3\<close> the quotient divides by zero, and at \<open>-238\<close> it
  is about 5872, beyond the range of \<open>math.exp\<close>.
\<close>

lemma tetens_quotient_le:
  assumes "- 237.3 < t"
  shows "17.27 * t / (t + 237.3) \<le> (18::real)"
proof -
  have p: "0 < t + 237.3" using assms by simp
  have "17.27 * t \<le> 18 * (t + 237.3)" using assms by simp
  then show ?thesis using p by (simp only: pos_divide_le_eq)
qed

lemma exp_18_no_overflow:
  assumes "x \<le> (18::real)"
  shows "exp x < 2 ^ 1024"
proof -
  have "exp x \<le> exp 18" using assms by simp
  also have "exp (18::real) = exp 1 ^ 18" using exp_of_nat_mult[of 18 "1::real"] by simp
  also have "\<dots> \<le> 3 ^ 18" by (intro power_mono exp_le) simp
  also have "\<dots> < (2::real) ^ 1024" by simp
  finally show ?thesis .
qed

lemma math_exp_tetens:
  "- 237.3 < t \<Longrightarrow> math_exp (17.27 * t / (t + 237.3)) = Inr (exp (17.27 * t / (t + 237.3)))"
  by (simp only: math_exp_def exp_18_no_overflow[OF tetens_quotient_le] if_True)

lemma saturation_vp_eq:
  assumes "- 237.3 < t"
  shows "saturation_vp t = Inr (0.6108 * exp (17.27 * t / (t + 237.3)))"
proof -
  have "t + 237.3 \<noteq> 0" using assms by simp
  then show ?thesis
    unfolding saturation_vp_def py_div_def
    by (simp only: if_False sum.case math_exp_tetens[OF assms])
qed

lemma saturation_vp_pole: "saturation_vp (- 237.3) = Inl ZeroDivisionError"
  by (simp add: saturation_vp_def py_div_def)

lemma math_exp_overflow:
  assumes "1024 \<le> x"
  shows "math_exp x = Inl OverflowError"
proof -
  have "(2::real) ^ 1024 \<le> exp 1 ^ 1024"
    using exp_ge_add_one_self[of "1::real"] by (intro power_mono) simp_all
  also have "\<dots> = exp (1024::real)" using exp_of_nat_mult[of 1024 "1::real"] by simp
  also have "\<dots> \<le> exp x" using assms by simp
  finally show ?thesis by (simp add: math_exp_def)
qed

lemma saturation_vp_overflow: "saturation_vp (- 238) = Inl OverflowError"
proof -
  have "(1024::real) \<le> 17.27 * (- 238) / (- 238 + 237.3)" by simp
  then have "math_exp (17.27 * (- 238) / (- 238 + 237.3)) = Inl OverflowError"
    by (rule math_exp_overflow)
  then show ?thesis unfolding saturation_vp_def py_div_def by simp
qed

lemma calculate_et0_mock_py_returns:
  assumes "- 237.3 < temp_max" and "- 237.3 < temp_min"
  shows "\<exists>v. calculate_et0_mock_py (Some temp_max) (Some temp_min) (Some humidity)
           (Some wind_speed) latitude day_of_year = Inr v \<and> 0 \<le> v"
  by (simp add: calculate_et0_mock_py_def py_num_def math_acos_mock saturation_vp_eq[OF assms(1)]
      saturation_vp_eq[OF assms(2)] u2_mock_eq Let_def)

lemma calculate_et0_mock_returns:
  assumes "- 237.3 < temp_max" and "- 237.3 < temp_min"
  shows "\<exists>v. calculate_et0_mock temp_max temp_min humidity wind_speed latitude day_of_year =
           Inr v \<and> 0 \<le> v"
  unfolding calculate_et0_mock_def by (rule calculate_et0_mock_py_returns[OF assms])

lemma calculate_et0_main_py_nonneg:
  "calculate_et0_main_py temp_max temp_min humidity wind_speed latitude day_of_year = Inr v \<Longrightarrow>
     0 \<le> v"
  by (auto simp add: calculate_et0_main_py_def Let_def split: sum.splits)

lemma calculate_et0_main_nonneg:
  "calculate_et0_main temp_max temp_min humidity wind_speed latitude day_of_year = Inr v \<Longrightarrow>
     0 \<le> v"
  unfolding calculate_et0_main_def by (rule calculate_et0_main_py_nonneg)

lemma calculate_et0_service_nonneg:
  "calculate_et0_service temp_max temp_min humidity wind_speed latitude day_of_year = Inr v \<Longrightarrow>
     0 \<le> v"
  by (auto simp add: calculate_et0_service_def py_round_nonneg
      dest: calculate_et0_main_nonneg split: sum.splits)

lemma denominator_nonzero: "0 \<le> u \<Longrightarrow> 1 + 0.34 * u \<noteq> (0::real)"
proof -
  assume "0 \<le> u"
  then have "0 < 1 + 0.34 * u" by simp
  then show ?thesis by simp
qed

text \<open>When the variant of \<open>main.py\<close> returns.\<close>

lemma calculate_et0_main_returns:
  assumes "- 1 \<le> sunset_arg_main latitude day_of_year"
    and "sunset_arg_main latitude day_of_year \<le> 1"
    and "- 237.3 < temp_max" and "- 237.3 < temp_min" and "0 \<le> wind_speed"
  shows "\<exists>v. calculate_et0_main temp_max temp_min humidity wind_speed latitude day_of_year =
           Inr v \<and> 0 \<le> v"
proof -
  have "0 < (temp_max + temp_min) / 2 + 273" using assms(3,4) by argo
  then have a3: "(temp_max + temp_min) / 2 + 273 \<noteq> 0" by simp
  have "0 \<le> wind_speed * 4.87 / ln (67.8 * 10 - 5.42)" using ln_672_pos assms(5) by simp
  then have b: "1 + 0.34 * (wind_speed * 4.87 / ln (67.8 * 10 - 5.42)) \<noteq> 0"
    by (rule denominator_nonzero)
  show ?thesis using a3 b assms(1,2)
    by (simp add: calculate_et0_main_def calculate_et0_main_py_def py_num_def math_acos_def
        saturation_vp_eq[OF assms(3)] saturation_vp_eq[OF assms(4)] py_div_def u2_main_eq Let_def)
qed

lemma sunset_arg_main_equator: "sunset_arg_main 0 day_of_year = 0"
  by (simp add: sunset_arg_main_def math_radians_def math_tan_def)

text \<open>
  C3, as the source has it. The claim reads: for every valid observation (humidity in
  \<open>[0, 100]\<close>, wind speed not negative, latitude in \<open>[-90, 90]\<close>, day in \<open>[1, 366]\<close>, any
  two temperatures) ET0 returns a value that is not negative. At a temperature of
  \<open>-237.3\<close> the Tetens quotient \<open>17.27 * T / (T + 237.3)\<close> divides by zero, and at
  \<open>-238\<close> \<open>math.exp\<close> overflows on it; both happen in every variant, and outside the
  \<open>try\<close> of \<open>main_mock_data.py\<close>.
\<close>

theorem calculate_et0_mock_tetens_pole:
  "calculate_et0_mock 20 (- 237.3) 60 3.2 35.8 300 = Inl ZeroDivisionError \<and>
   calculate_et0_mock 20 (- 238) 60 3.2 35.8 300 = Inl OverflowError"
proof -
  have s: "saturation_vp 20 = Inr (0.6108 * exp (17.27 * 20 / (20 + 237.3)))"
    by (rule saturation_vp_eq) simp
  show ?thesis
    by (simp add: calculate_et0_mock_def calculate_et0_mock_py_def py_num_def math_acos_mock s
        saturation_vp_pole saturation_vp_overflow Let_def)
qed

text \<open>
  C3, amended. When both temperatures are above \<open>-237.3\<close>, \<open>calculate_et0\<close> of
  \<open>main_mock_data.py\<close> returns a value that is not negative, whatever the other inputs;
  and every value that \<open>calculate_et0\<close> of \<open>main.py\<close> or of \<open>et0_service.py\<close> returns is
  not negative.
\<close>

theorem calculate_et0_nonneg:
  assumes "- 237.3 < temp_max" and "- 237.3 < temp_min"
  shows "(\<exists>v. calculate_et0_mock temp_max temp_min humidity wind_speed latitude day_of_year =
            Inr v \<and> 0 \<le> v) \<and>
         (\<forall>v. calculate_et0_main temp_max temp_min humidity wind_speed latitude day_of_year =
            Inr v \<longrightarrow> 0 \<le> v) \<and>
         (\<forall>v. calculate_et0_service temp_max temp_min humidity wind_speed latitude day_of_year =
            Inr v \<longrightarrow> 0 \<le> v)"
  using calculate_et0_mock_returns[OF assms] calculate_et0_main_nonneg
    calculate_et0_service_nonneg by blast

theorem calculate_et0_nonneg_witness:
  "(\<exists>v. calculate_et0_mock 30 20 60 3.2 0 300 = Inr v \<and> 0 \<le> v) \<and>
   (\<exists>v. calculate_et0_main 30 20 60 3.2 0 300 = Inr v \<and> 0 \<le> v) \<and>
   (\<exists>v. calculate_et0_service 30 20 60 3.2 0 300 = Inr v \<and> 0 \<le> v)"
proof -
  have t: "- 237.3 < (30::real)" "- 237.3 < (20::real)" by simp_all
  note n = calculate_et0_nonneg[OF t, of 60 "3.2" 0 300]
  obtain v where v: "calculate_et0_main 30 20 60 3.2 0 300 = Inr v"
    using calculate_et0_main_returns[of 0 300 30 20 "3.2" 60]
    by (auto simp add: sunset_arg_main_equator)
  then have s: "calculate_et0_service 30 20 60 3.2 0 300 = Inr (py_round v 2)"
    by (simp add: calculate_et0_service_def)
  from n v s show ?thesis by blast
qed

section \<open>The water balance\<close>

text \<open>
  C7. For \<open>total_et0 \<ge> 0\<close>, any \<open>kc\<close> and \<open>expected_rain \<ge> 0\<close>, the net irrigation depth
  \<open>max(0, total_et0 * kc - expected_rain)\<close> is not negative, does not decrease when
  \<open>total_et0\<close> grows and does not increase when \<open>expected_rain\<close> grows.
\<close>

theorem net_irrigation_mm_monotone:
  assumes "0 \<le> t1" and "t1 \<le> t2" and "0 \<le> r1" and "r1 \<le> r2"
  shows "0 \<le> net_irrigation_mm t1 kc r1 \<and>
         net_irrigation_mm t1 kc r1 \<le> net_irrigation_mm t2 kc r1 \<and>
         net_irrigation_mm t1 kc r2 \<le> net_irrigation_mm t1 kc r1"
proof (cases "0 \<le> kc")
  case True
  with assms(2) have "t1 * kc \<le> t2 * kc" by (simp add: mult_right_mono)
  with assms(4) show ?thesis by (simp add: net_irrigation_mm_def Let_def max_def)
next
  case False
  with assms(1,2) have "t2 * kc \<le> 0" "t1 * kc \<le> 0" by (simp_all add: mult_nonneg_nonpos)
  with assms(3,4) show ?thesis by (simp add: net_irrigation_mm_def Let_def max_def)
qed

theorem net_irrigation_mm_monotone_witness:
  "0 \<le> net_irrigation_mm 3 0.7 1 \<and>
   net_irrigation_mm 3 0.7 1 \<le> net_irrigation_mm 5 0.7 1 \<and>
   net_irrigation_mm 3 0.7 2 \<le> net_irrigation_mm 3 0.7 1 \<and>
   net_irrigation_mm 3 0.7 1 = 1.1 \<and> net_irrigation_mm 5 0.7 1 = 2.5 \<and>
   net_irrigation_mm 3 0.7 2 = 0.1"
  using net_irrigation_mm_monotone[of 3 5 1 2 "0.7"]
  by (simp add: net_irrigation_mm_def)

section \<open>The loop over the forecast\<close>

text \<open>
  The total over the forecast never falls below the total the loop starts from: each day
  adds an ET0 that is not negative. The loop of \<open>main_mock_data.py\<close> returns whenever
  every day yields numbers, with temperatures above \<open>-237.3\<close>.
\<close>

lemma et0_loop_mock_returns:
  assumes "\<forall>day \<in> set forecast. \<exists>tmax tmin hum wind.
      entry_get (fc_temp_max day) (Some 28) = Some tmax \<and> - 237.3 < tmax \<and>
      entry_get (fc_temp_min day) (Some 18) = Some tmin \<and> - 237.3 < tmin \<and>
      entry_get (fc_humidity day) (Some 65) = Some hum \<and>
      entry_get (fc_wind_speed day) (Some 3.5) = Some wind"
  shows "\<exists>v. et0_loop_mock lat d forecast acc = Inr v \<and> acc \<le> v"
  using assms
proof (induction forecast arbitrary: d acc)
  case Nil
  then show ?case by simp
next
  case (Cons day rest)
  have "\<exists>tmax tmin hum wind.
      entry_get (fc_temp_max day) (Some 28) = Some tmax \<and> - 237.3 < tmax \<and>
      entry_get (fc_temp_min day) (Some 18) = Some tmin \<and> - 237.3 < tmin \<and>
      entry_get (fc_humidity day) (Some 65) = Some hum \<and>
      entry_get (fc_wind_speed day) (Some 3.5) = Some wind"
    using Cons.prems by simp
  then obtain tmax tmin hum wind where
      g: "entry_get (fc_temp_max day) (Some 28) = Some tmax"
         "entry_get (fc_temp_min day) (Some 18) = Some tmin"
         "entry_get (fc_humidity day) (Some 65) = Some hum"
         "entry_get (fc_wind_speed day) (Some 3.5) = Some wind"
      and t: "- 237.3 < tmax" "- 237.3 < tmin"
    by blast
  obtain e where e: "calculate_et0_mock_py (Some tmax) (Some tmin) (Some hum) (Some wind) lat d =
      Inr e" "0 \<le> e"
    using calculate_et0_mock_py_returns[OF t] by blast
  have r: "\<forall>day \<in> set rest. \<exists>tmax tmin hum wind.
      entry_get (fc_temp_max day) (Some 28) = Some tmax \<and> - 237.3 < tmax \<and>
      entry_get (fc_temp_min day) (Some 18) = Some tmin \<and> - 237.3 < tmin \<and>
      entry_get (fc_humidity day) (Some 65) = Some hum \<and>
      entry_get (fc_wind_speed day) (Some 3.5) = Some wind"
    using Cons.prems by simp
  obtain v where v: "et0_loop_mock lat (d + 1) rest (acc + e) = Inr v" "acc + e \<le> v"
    using Cons.IH[OF r] by blast
  have "et0_loop_mock lat d (day # rest) acc = Inr v"
    by (simp only: et0_loop_mock.simps g e(1) sum.case v(1))
  moreover have "acc \<le> v" using e(2) v(2) by linarith
  ultimately show ?case by blast
qed

lemma et0_loop_main_nonneg:
  "et0_loop_main lat d forecast acc = Inr v \<Longrightarrow> acc \<le> v"
proof (induction forecast arbitrary: d acc)
  case Nil
  then show ?case by simp
next
  case (Cons day rest)
  from Cons.prems obtain tmax tmin hum wind e where
      e: "calculate_et0_main_py tmax tmin hum wind lat d = Inr e"
      and l: "et0_loop_main lat (d + 1) rest (acc + e) = Inr v"
    by (simp split: sum.splits)
  have "0 \<le> e" using e by (rule calculate_et0_main_py_nonneg)
  moreover have "acc + e \<le> v" using l by (rule Cons.IH)
  ultimately show ?case by linarith
qed

section \<open>Running the pipelines on the clear forecast\<close>

lemma et0_quotient_pos:
  assumes "0 \<le> rn" "0 < c" "0 < u2" "0 < vpd"
  shows "0 < (0.408 * rn + c * u2 * vpd) / (1 + 0.34 * u2 :: real)"
proof -
  have "0 < c * u2 * vpd" using assms by simp
  moreover have "0 \<le> 0.408 * rn" using assms by simp
  ultimately have "0 < 0.408 * rn + c * u2 * vpd" by linarith
  moreover have "0 < 1 + 0.34 * u2" using assms by simp
  ultimately show ?thesis by simp
qed

lemma vpd_pos:
  assumes "0 < es" "h < 100"
  shows "0 < es - es * (h / 100 :: real)"
proof -
  have "0 < 1 - h / 100" using assms(2) by simp
  with assms(1) have "0 < es * (1 - h / 100)" by (rule mult_pos_pos)
  moreover have "es * (1 - h / 100) = es - es * (h / 100)" by (simp add: algebra_simps)
  ultimately show ?thesis by (simp only:)
qed

lemma es_pos: "0 < (0.6108 * exp a + 0.6108 * exp b) / (2::real)"
  by (simp add: add_pos_pos)

lemma calculate_et0_mock_eq:
  assumes "- 237.3 < temp_max" "- 237.3 < temp_min"
    "(temp_max + temp_min) / 2 + 273 \<noteq> 0"
    "1 + 0.34 * (wind_speed * 4.87 / ln (67.8 * 10 + 5.42)) \<noteq> 0"
  shows "calculate_et0_mock temp_max temp_min humidity wind_speed latitude day_of_year =
    Inr (max 0
      ((0.408 * max 0 (0.77 * ((0.25 + 0.5) *
            ra latitude day_of_year (arccos (sunset_arg_mock latitude day_of_year))) - 0.9) +
        900 / ((temp_max + temp_min) / 2 + 273) *
          (wind_speed * 4.87 / ln (67.8 * 10 + 5.42)) *
          max 0 ((0.6108 * exp (17.27 * temp_max / (temp_max + 237.3)) +
                  0.6108 * exp (17.27 * temp_min / (temp_min + 237.3))) / 2 -
                 (0.6108 * exp (17.27 * temp_max / (temp_max + 237.3)) +
                  0.6108 * exp (17.27 * temp_min / (temp_min + 237.3))) / 2 *
                 (humidity / 100))) /
       (1 + 0.34 * (wind_speed * 4.87 / ln (67.8 * 10 + 5.42)))))"
  unfolding calculate_et0_mock_def calculate_et0_mock_py_def py_num_def Let_def math_acos_mock
    saturation_vp_eq[OF assms(1)] saturation_vp_eq[OF assms(2)] py_div_def u2_mock_eq
  by (simp only: assms(3,4) if_False sum.case option.case
      saturation_vp_eq[OF assms(1)] saturation_vp_eq[OF assms(2)])

lemma calculate_et0_mock_pos:
  assumes "- 237.3 < temp_max" "- 237.3 < temp_min" "humidity < 100" "0 < wind_speed"
  shows "\<exists>v. calculate_et0_mock temp_max temp_min humidity wind_speed latitude day_of_year = Inr v \<and> 0 < v"
proof -
  have t: "0 < (temp_max + temp_min) / 2 + 273" using assms(1,2) by argo
  then have t0: "(temp_max + temp_min) / 2 + 273 \<noteq> 0" by simp
  have c: "0 < 900 / ((temp_max + temp_min) / 2 + 273)" using t by simp
  have u: "0 < wind_speed * 4.87 / ln (67.8 * 10 + 5.42)" using assms(4) ln_683_pos by simp
  then have d: "1 + 0.34 * (wind_speed * 4.87 / ln (67.8 * 10 + 5.42)) \<noteq> 0" by simp
  note v = max.strict_coboundedI2[OF vpd_pos[OF es_pos assms(3)]]
  have rn: "0 \<le> max 0 (x::real)" for x by simp
  show ?thesis
    unfolding calculate_et0_mock_eq[OF assms(1,2) t0 d]
    apply (rule exI, rule conjI, rule refl)
    apply (rule max.strict_coboundedI2)
    apply (rule et0_quotient_pos[OF rn c u v])
    done
qed

lemma clear_day_get:
  "entry_get (fc_temp_max clear_day) (Some 28) = Some 30"
  "entry_get (fc_temp_min clear_day) (Some 18) = Some 20"
  "entry_get (fc_humidity clear_day) (Some 65) = Some 60"
  "entry_get (fc_wind_speed clear_day) (Some 3.5) = Some 3.2"
  by (simp_all add: clear_day_def entry_get_def)

lemma clear_day_mock_pos:
  "\<exists>v. calculate_et0_mock_py (Some 30) (Some 20) (Some 60) (Some 3.2) lat d = Inr v \<and> 0 < v"
  by (rule calculate_et0_mock_pos[unfolded calculate_et0_mock_def]) simp_all

lemma et0_loop_mock_clear:
  "\<exists>v. et0_loop_mock lat d [clear_day, clear_day, clear_day] 0 = Inr v \<and> 0 < v"
proof -
  obtain v1 where v1: "calculate_et0_mock_py (Some 30) (Some 20) (Some 60) (Some 3.2) lat d =
      Inr v1" "0 < v1"
    using clear_day_mock_pos by blast
  obtain v2 where v2: "calculate_et0_mock_py (Some 30) (Some 20) (Some 60) (Some 3.2) lat (d + 1) =
      Inr v2" "0 < v2"
    using clear_day_mock_pos by blast
  obtain v3 where v3: "calculate_et0_mock_py (Some 30) (Some 20) (Some 60) (Some 3.2) lat
      (d + 1 + 1) = Inr v3" "0 < v3"
    using clear_day_mock_pos by blast
  have "et0_loop_mock lat d [clear_day, clear_day, clear_day] 0 = Inr (0 + v1 + v2 + v3)"
    by (simp only: et0_loop_mock.simps clear_day_get v1(1) v2(1) v3(1) sum.case)
  moreover have "0 < 0 + v1 + v2 + v3" using v1 v2 v3 by simp
  ultimately show ?thesis by blast
qed

lemma kc_mid_half:
  "calculate_crop_coefficient_mock 0.5 ''mid'' = 0.7"
  "calculate_crop_coefficient_main 0.5 ''mid'' = 0.7"
  by (simp_all add: calculate_crop_coefficient_mock_def calculate_crop_coefficient_main_def
      base_kc_def dict_get_def)

lemma expected_rain_clear: "expected_rain [clear_day, clear_day, clear_day] = Inr 0"
  by (simp add: clear_day_def entry_get_def py_num_def)

lemma forecast_mock_clear: "forecast_mock clear_weather = [clear_day, clear_day, clear_day]"
  by (simp add: forecast_mock_def clear_weather_def)

lemma irrigation_m3_pos: "0 < v \<Longrightarrow> 0 < irrigation_m3 (net_irrigation_mm v 0.7 0) (area_m2_mock 2)"
  "0 < v \<Longrightarrow> 0 < irrigation_m3 (net_irrigation_mm v 0.7 0) (area_m2_main 2)"
  by (simp_all add: net_irrigation_mm_def irrigation_m3_def area_m2_mock_def area_m2_main_def)

lemma plan_mock_clear:
  "\<exists>p. irrigation_plan_mock clear_weather lat 2 400 0.5 300 = Inr p \<and> 0 < p_irrigation_m3 p"
proof -
  obtain v where v: "et0_loop_mock lat 300 [clear_day, clear_day, clear_day] 0 = Inr v" "0 < v"
    using et0_loop_mock_clear by blast
  show ?thesis
    unfolding irrigation_plan_mock_def Let_def forecast_mock_clear v(1) kc_mid_half
      expected_rain_clear
    using irrigation_m3_pos(1)[OF v(2)] by simp
qed

lemma calculate_et0_main_eq:
  assumes "- 1 \<le> sunset_arg_main latitude day_of_year \<and> sunset_arg_main latitude day_of_year \<le> 1"
    "- 237.3 < temp_max" "- 237.3 < temp_min"
    "(temp_max + temp_min) / 2 + 273 \<noteq> 0"
    "1 + 0.34 * (wind_speed * 4.87 / ln (67.8 * 10 - 5.42)) \<noteq> 0"
  shows "calculate_et0_main temp_max temp_min humidity wind_speed latitude day_of_year =
    Inr (max 0
      ((0.408 * (0.77 * ((0.25 + 0.5 * 1) *
            ra latitude day_of_year (arccos (sunset_arg_main latitude day_of_year))) - 0.9) +
        900 * ((temp_max + temp_min) / 2 + 273) *
          (wind_speed * 4.87 / ln (67.8 * 10 - 5.42)) *
          ((0.6108 * exp (17.27 * temp_max / (temp_max + 237.3)) +
            0.6108 * exp (17.27 * temp_min / (temp_min + 237.3))) / 2 -
           (0.6108 * exp (17.27 * temp_max / (temp_max + 237.3)) +
            0.6108 * exp (17.27 * temp_min / (temp_min + 237.3))) / 2 *
           (humidity / 100)) / ((temp_max + temp_min) / 2 + 273)) /
       (1 + 0.34 * (wind_speed * 4.87 / ln (67.8 * 10 - 5.42)))))"
  unfolding calculate_et0_main_def calculate_et0_main_py_def py_num_def Let_def math_acos_def
    saturation_vp_eq[OF assms(2)] saturation_vp_eq[OF assms(3)] py_div_def u2_main_eq
  by (simp only: assms(1,4,5) if_True if_False sum.case option.case simp_thms
      saturation_vp_eq[OF assms(2)] saturation_vp_eq[OF assms(3)])

lemma dr_nonneg: "- 1 \<le> c \<Longrightarrow> 0 \<le> 1 + 0.033 * (c::real)"
  by simp

lemma ra_equator_nonneg: "0 \<le> ra 0 d (arccos 0)"
proof -
  have dr: "0 \<le> 1 + 0.033 * cos (2 * pi * real_of_int d / 365)"
    by (rule dr_nonneg) (rule cos_ge_minus_one)
  have "\<bar>sin ((2 * pi / 365) * real_of_int d - 1.39)\<bar> \<le> 1" by simp
  then have "\<bar>solar_declination d\<bar> \<le> 0.409" by (simp add: solar_declination_def abs_mult)
  then have "\<bar>solar_declination d\<bar> \<le> 1" by simp
  then have "- (pi / 2) \<le> solar_declination d" "solar_declination d \<le> pi / 2"
    using pi_ge_two by linarith+
  then have c: "0 \<le> cos (solar_declination d)" by (rule cos_ge_zero)
  have "ra 0 d (arccos 0) = 37.6 * (1 + 0.033 * cos (2 * pi * real_of_int d / 365)) * cos (solar_declination d)"
    by (simp add: ra_def math_radians_def Let_def)
  also have "0 \<le> \<dots>" using dr c by simp
  finally show ?thesis .
qed

lemma et0_main_quotient_pos:
  assumes "0 \<le> r" "0 < T" "0.02 < u2" "0.24 \<le> vpd"
  shows "0 < (0.408 * (0.77 * ((0.25 + 0.5 * 1) * r) - 0.9) + 900 * T * u2 * vpd / T) / (1 + 0.34 * u2 :: real)"
proof -
  have "0.02 * 0.24 < u2 * vpd"
    using assms(3,4) by (intro mult_less_le_imp_less) simp_all
  then have "0.3672 < 900 * (u2 * vpd)" by simp
  moreover have "900 * T * u2 * vpd / T = 900 * (u2 * vpd)" using assms(2) by simp
  moreover have "0 \<le> 0.408 * (0.77 * ((0.25 + 0.5 * 1) * r))" using assms(1) by simp
  ultimately have "0 < 0.408 * (0.77 * ((0.25 + 0.5 * 1) * r) - 0.9) + 900 * T * u2 * vpd / T"
    by (simp only:) (simp add: algebra_simps)
  moreover have "0 < 1 + 0.34 * u2" using assms(3) by simp
  ultimately show ?thesis by (rule divide_pos_pos)
qed

lemma u2_main_lower: "0.02 < 3.2 * 4.87 / ln (67.8 * 10 - 5.42 :: real)"
proof -
  have "ln (67.8 * 10 - 5.42 :: real) < 67.8 * 10 - 5.42" by (rule ln_less_self) simp
  then have "0.02 * ln (67.8 * 10 - 5.42 :: real) < 3.2 * 4.87" by simp
  then show ?thesis using ln_672_pos by (simp only: pos_less_divide_eq)
qed

lemma vpd_lower_aux:
  assumes "1 \<le> ea" "1 \<le> eb"
  shows "0.24 \<le> (0.6108 * ea + 0.6108 * eb) / 2 -
           (0.6108 * ea + 0.6108 * eb) / 2 * (60 / 100 :: real)"
proof -
  have eq: "(0.6108 * ea + 0.6108 * eb) / 2 - (0.6108 * ea + 0.6108 * eb) / 2 * (60 / 100)
      = 0.12216 * (ea + eb)" by (simp add: algebra_simps)
  have "2 \<le> ea + eb" using assms by simp
  then have "0.24 \<le> 0.12216 * (ea + eb)" by simp
  then show ?thesis by (simp only: eq)
qed

lemma vpd_lower:
  assumes "0 \<le> a" "0 \<le> b"
  shows "0.24 \<le> (0.6108 * exp a + 0.6108 * exp b) / 2 - (0.6108 * exp a + 0.6108 * exp b) / 2 * (60 / 100 :: real)"
proof -
  have "1 \<le> exp a" "1 \<le> exp b" using assms by simp_all
  then show ?thesis by (rule vpd_lower_aux)
qed

lemma clear_day_main_pos:
  "\<exists>v. calculate_et0_main_py (Some 30) (Some 20) (Some 60) (Some 3.2) 0 d = Inr v \<and> 0 < v"
proof -
  have r: "- 1 \<le> sunset_arg_main 0 d \<and> sunset_arg_main 0 d \<le> 1"
    by (simp add: sunset_arg_main_equator)
  have a: "- 237.3 < (30::real)" "- 237.3 < (20::real)" "((30::real) + 20) / 2 + 273 \<noteq> 0"
    by simp_all
  have T: "0 < ((30::real) + 20) / 2 + 273" by simp
  have d: "1 + 0.34 * (3.2 * 4.87 / ln (67.8 * 10 - 5.42 :: real)) \<noteq> 0"
    using ln_672_pos by (intro denominator_nonzero) simp
  have q: "0 \<le> 17.27 * 30 / (30 + 237.3 :: real)" "0 \<le> 17.27 * 20 / (20 + 237.3 :: real)" by simp_all
  show ?thesis
    unfolding calculate_et0_main_eq[OF r a d, unfolded calculate_et0_main_def]
      sunset_arg_main_equator
    apply (rule exI, rule conjI, rule refl)
    apply (rule max.strict_coboundedI2)
    apply (rule et0_main_quotient_pos[OF ra_equator_nonneg T u2_main_lower vpd_lower[OF q]])
    done
qed

lemma clear_day_index:
  "entry_index (fc_temp_max clear_day) = Inr (Some 30)"
  "entry_index (fc_temp_min clear_day) = Inr (Some 20)"
  "entry_index (fc_humidity clear_day) = Inr (Some 60)"
  "entry_index (fc_wind_speed clear_day) = Inr (Some 3.2)"
  "entry_index (fc_weather clear_day) = Inr (Some ''Clear'')"
  by (simp_all add: clear_day_def entry_index_def)

lemma et0_loop_main_clear:
  "\<exists>v. et0_loop_main 0 d [clear_day, clear_day, clear_day] 0 = Inr v \<and> 0 < v"
proof -
  obtain v1 where v1: "calculate_et0_main_py (Some 30) (Some 20) (Some 60) (Some 3.2) 0 d =
      Inr v1" "0 < v1"
    using clear_day_main_pos by blast
  obtain v2 where v2: "calculate_et0_main_py (Some 30) (Some 20) (Some 60) (Some 3.2) 0 (d + 1) =
      Inr v2" "0 < v2"
    using clear_day_main_pos by blast
  obtain v3 where v3: "calculate_et0_main_py (Some 30) (Some 20) (Some 60) (Some 3.2) 0
      (d + 1 + 1) = Inr v3" "0 < v3"
    using clear_day_main_pos by blast
  have "et0_loop_main 0 d [clear_day, clear_day, clear_day] 0 = Inr (0 + v1 + v2 + v3)"
    by (simp only: et0_loop_main.simps clear_day_index v1(1) v2(1) v3(1) sum.case)
  moreover have "0 < 0 + v1 + v2 + v3" using v1 v2 v3 by simp
  ultimately show ?thesis by blast
qed

lemma take_clear: "take 3 (w_forecast clear_weather) = [clear_day, clear_day, clear_day]"
  "w_success clear_weather" "cur_temperature (w_current clear_weather) = Val 28"
  by (simp_all add: clear_weather_def)

lemma plan_main_clear:
  "\<exists>p. irrigation_plan_main clear_weather 0 2 400 0.5 300 = Inr p \<and> 0 < p_irrigation_m3 p"
proof -
  obtain v where v: "et0_loop_main 0 300 [clear_day, clear_day, clear_day] 0 = Inr v" "0 < v"
    using et0_loop_main_clear by blast
  show ?thesis
    unfolding irrigation_plan_main_def Let_def take_clear(1) v(1) kc_mid_half
      expected_rain_clear
    using irrigation_m3_pos(2)[OF v(2)] take_clear(2) by simp
qed

lemma forecast_summary_main_clear:
  "forecast_summary_main [clear_day, clear_day, clear_day] = Inr [''Clear'', ''Clear'', ''Clear'']"
  by (simp add: forecast_summary_main_def forecast_weather_def clear_day_index format_value_def)

section \<open>The volumetric conversion\<close>

lemma irrigation_plan_main_fields:
  assumes "irrigation_plan_main weather lat area_hectares plant_count ndvi today = Inr p"
  shows "p_irrigation_m3 p = irrigation_m3 (p_net_irrigation_mm p) (area_m2_main area_hectares)"
    and "p_liters_per_tree p = liters_per_tree (irrigation_liters (p_irrigation_m3 p)) plant_count"
    and "p_hours_per_tree p = hours_per_tree (p_liters_per_tree p)"
    and "p_traditional_m3 p = traditional_m3 (p_irrigation_m3 p)"
  using assms
  by (auto simp add: irrigation_plan_main_def Let_def split: if_splits sum.splits)

lemma irrigation_plan_mock_fields:
  assumes "irrigation_plan_mock weather lat area_hectares plant_count ndvi today = Inr p"
  shows "p_irrigation_m3 p = irrigation_m3 (p_net_irrigation_mm p) (area_m2_mock area_hectares)"
    and "p_liters_per_tree p = liters_per_tree (irrigation_liters (p_irrigation_m3 p)) plant_count"
    and "p_hours_per_tree p = hours_per_tree (p_liters_per_tree p)"
    and "p_traditional_m3 p = traditional_m3 (p_irrigation_m3 p)"
  using assms
  by (auto simp add: irrigation_plan_mock_def Let_def split: if_splits sum.splits)

text \<open>
  C8. With 2.0 hectares, 400 plants and a net depth of 5.0 mm the conversion gives 100 cubic
  metres, 250 litres per plant and 62.5 hours per plant. In general, for the plan that either
  pipeline computes (the area not negative, as the plot geometry has it; \<open>main.py\<close> needs
  no bound), \<open>volume_m3 = (net_mm / 1000) * (area_hectares * 10000)\<close>,
  \<open>liters_per_plant = volume_m3 * 1000 / plant_count\<close> when \<open>plant_count > 0\<close> and 0
  otherwise, and \<open>hours_per_plant = liters_per_plant / 4\<close> when \<open>liters_per_plant > 0\<close> and
  0 otherwise.
\<close>

theorem volumetric_conversion:
  "irrigation_m3 5.0 (area_m2_main 2.0) = 100 \<and>
   irrigation_m3 5.0 (area_m2_mock 2.0) = 100 \<and>
   liters_per_tree (irrigation_liters 100) 400 = 250 \<and>
   hours_per_tree 250 = 62.5 \<and>
   (irrigation_plan_main weather lat area_hectares plant_count ndvi today = Inr p \<longrightarrow>
      p_irrigation_m3 p = (p_net_irrigation_mm p / 1000) * (area_hectares * 10000) \<and>
      p_liters_per_tree p =
        (if 0 < plant_count then p_irrigation_m3 p * 1000 / of_int plant_count else 0) \<and>
      p_hours_per_tree p = (if 0 < p_liters_per_tree p then p_liters_per_tree p / 4 else 0)) \<and>
   (0 \<le> area_hectares \<and>
    irrigation_plan_mock weather lat area_hectares plant_count ndvi today = Inr q \<longrightarrow>
      p_irrigation_m3 q = (p_net_irrigation_mm q / 1000) * (area_hectares * 10000) \<and>
      p_liters_per_tree q =
        (if 0 < plant_count then p_irrigation_m3 q * 1000 / of_int plant_count else 0) \<and>
      p_hours_per_tree q = (if 0 < p_liters_per_tree q then p_liters_per_tree q / 4 else 0))"
proof -
  have 1: "irrigation_m3 5.0 (area_m2_main 2.0) = 100" "irrigation_m3 5.0 (area_m2_mock 2.0) = 100"
    by (simp_all add: irrigation_m3_def area_m2_main_def area_m2_mock_def)
  have 2: "liters_per_tree (irrigation_liters 100) 400 = 250" "hours_per_tree 250 = 62.5"
    by (simp_all add: liters_per_tree_def irrigation_liters_def hours_per_tree_def)
  have 3: "p_irrigation_m3 p = (p_net_irrigation_mm p / 1000) * (area_hectares * 10000) \<and>
      p_liters_per_tree p =
        (if 0 < plant_count then p_irrigation_m3 p * 1000 / of_int plant_count else 0) \<and>
      p_hours_per_tree p = (if 0 < p_liters_per_tree p then p_liters_per_tree p / 4 else 0)"
    if "irrigation_plan_main weather lat area_hectares plant_count ndvi today = Inr p"
    using irrigation_plan_main_fields[OF that]
    by (simp add: irrigation_m3_def area_m2_main_def liters_per_tree_def irrigation_liters_def
        hours_per_tree_def)
  have 4: "p_irrigation_m3 q = (p_net_irrigation_mm q / 1000) * (area_hectares * 10000) \<and>
      p_liters_per_tree q =
        (if 0 < plant_count then p_irrigation_m3 q * 1000 / of_int plant_count else 0) \<and>
      p_hours_per_tree q = (if 0 < p_liters_per_tree q then p_liters_per_tree q / 4 else 0)"
    if "0 \<le> area_hectares"
      "irrigation_plan_mock weather lat area_hectares plant_count ndvi today = Inr q"
    using irrigation_plan_mock_fields[OF that(2)] that(1)
    by (simp add: irrigation_m3_def area_m2_mock_def liters_per_tree_def irrigation_liters_def
        hours_per_tree_def)
  from 1 2 3 4 show ?thesis by blast
qed

theorem volumetric_conversion_witness:
  "(\<exists>p. irrigation_plan_main clear_weather 0 2 400 0.5 300 = Inr p \<and>
      p_irrigation_m3 p = (p_net_irrigation_mm p / 1000) * (2 * 10000) \<and>
      p_liters_per_tree p = p_irrigation_m3 p * 1000 / 400 \<and>
      p_hours_per_tree p = p_liters_per_tree p / 4) \<and>
   (\<exists>q. irrigation_plan_mock clear_weather 0 2 400 0.5 300 = Inr q \<and>
      p_irrigation_m3 q = (p_net_irrigation_mm q / 1000) * (2 * 10000) \<and>
      p_liters_per_tree q = p_irrigation_m3 q * 1000 / 400 \<and>
      p_hours_per_tree q = p_liters_per_tree q / 4)"
proof -
  obtain p where p: "irrigation_plan_main clear_weather 0 2 400 0.5 300 = Inr p"
      "0 < p_irrigation_m3 p"
    using plan_main_clear by blast
  obtain q where q: "irrigation_plan_mock clear_weather 0 2 400 0.5 300 = Inr q"
      "0 < p_irrigation_m3 q"
    using plan_mock_clear by blast
  note v = volumetric_conversion[of clear_weather 0 2 400 "0.5" 300 p q]
  have "p_irrigation_m3 p = (p_net_irrigation_mm p / 1000) * (2 * 10000) \<and>
      p_liters_per_tree p = p_irrigation_m3 p * 1000 / 400 \<and>
      p_hours_per_tree p = p_liters_per_tree p / 4"
    using v p by simp
  moreover have "p_irrigation_m3 q = (p_net_irrigation_mm q / 1000) * (2 * 10000) \<and>
      p_liters_per_tree q = p_irrigation_m3 q * 1000 / 400 \<and>
      p_hours_per_tree q = p_liters_per_tree q / 4"
    using v q by simp
  ultimately show ?thesis using p(1) q(1) by blast
qed

section \<open>An empty forecast window\<close>

lemma forecast_mock_empty:
  "forecast_mock (weather\<lparr>w_forecast := []\<rparr>) = [fallback_day (w_current weather)]"
  "forecast_mock (weather\<lparr>w_forecast := [fallback_day (w_current weather)]\<rparr>) =
     [fallback_day (w_current weather)]"
  by (simp_all add: forecast_mock_def)

lemma fallback_day_eq:
  assumes "entry_get (cur_temperature c) (Some 28) = Some tmax"
    and "entry_get (cur_temperature c) (Some 20) = Some tmin"
    and "entry_get (cur_humidity c) (Some 65) = Some hum"
    and "entry_get (cur_wind_speed c) (Some 3.5) = Some wind"
    and "entry_get (cur_weather c) (Some ''Clear'') = Some s"
  shows "fallback_day c =
     \<lparr>fc_temp_max = Val tmax, fc_temp_min = Val tmin, fc_humidity = Val hum,
      fc_wind_speed = Val wind, fc_weather = Val s, fc_rain_probability = Val 0\<rparr>"
  unfolding fallback_day_def assms by (simp add: entry_of_def)

lemma irrigation_plan_mock_single:
  assumes "- 237.3 < tmax" and "- 237.3 < tmin"
    and "forecast_mock weather =
      [\<lparr>fc_temp_max = Val tmax, fc_temp_min = Val tmin, fc_humidity = Val hum,
        fc_wind_speed = Val wind, fc_weather = Val s, fc_rain_probability = Val 0\<rparr>]"
  shows "\<exists>p. irrigation_plan_mock weather lat a n ndvi today = Inr p \<and> p_expected_rain p = 0"
proof -
  obtain v where "calculate_et0_mock_py (Some tmax) (Some tmin) (Some hum) (Some wind) lat today =
      Inr v"
    using calculate_et0_mock_py_returns[OF assms(1,2)] by blast
  then show ?thesis
    by (simp add: irrigation_plan_mock_def assms(3) entry_get_def py_num_def Let_def)
qed

lemma calculate_irrigation_mock_single:
  assumes "- 237.3 < tmax" and "- 237.3 < tmin"
    and "forecast_mock weather =
      [\<lparr>fc_temp_max = Val tmax, fc_temp_min = Val tmin, fc_humidity = Val hum,
        fc_wind_speed = Val wind, fc_weather = Val s, fc_rain_probability = Val 0\<rparr>]"
  shows "\<exists>resp. calculate_irrigation_mock weather lat a n ndvi today = Inr resp \<and>
           resp_forecast_summary resp = [s, []] \<and> resp_expected_rain_mm resp = 0"
proof -
  obtain p where p: "irrigation_plan_mock weather lat a n ndvi today = Inr p"
      "p_expected_rain p = 0"
    using irrigation_plan_mock_single[OF assms] by blast
  obtain r where r: "calculate_water_savings_mock (p_traditional_m3 p) (p_irrigation_m3 p) = Inr r"
    using calculate_water_savings_mock_returns by blast
  show ?thesis
    by (simp add: calculate_irrigation_mock_def p r assms(3) forecast_summary_mock_def
        empty_day_def entry_get_def py_round_zero)
qed

lemma calculate_irrigation_mock_empty_eq:
  "calculate_irrigation_mock (weather\<lparr>w_forecast := []\<rparr>) lat a n ndvi today =
     calculate_irrigation_mock (weather\<lparr>w_forecast := [fallback_day (w_current weather)]\<rparr>)
       lat a n ndvi today"
proof -
  have "irrigation_plan_mock (weather\<lparr>w_forecast := []\<rparr>) lat a n ndvi today =
      irrigation_plan_mock (weather\<lparr>w_forecast := [fallback_day (w_current weather)]\<rparr>)
        lat a n ndvi today"
    by (simp only: irrigation_plan_mock_def forecast_mock_empty)
  then show ?thesis
    by (simp add: calculate_irrigation_mock_def forecast_mock_empty cong: sum.case_cong)
qed

lemma clear_current_get:
  "entry_get (cur_temperature (w_current clear_weather)) (Some 28) = Some 28"
  "entry_get (cur_temperature (w_current clear_weather)) (Some 20) = Some 28"
  "entry_get (cur_humidity (w_current clear_weather)) (Some 65) = Some 65"
  "entry_get (cur_wind_speed (w_current clear_weather)) (Some 3.5) = Some 3.5"
  "entry_get (cur_weather (w_current clear_weather)) (Some ''Clear'') = Some ''Clear''"
  by (simp_all add: clear_weather_def entry_get_def)

text \<open>
  C5, as the source has it. The claim reads: with an empty forecast window the irrigation
  aggregation fails with an explicit error; it does not go on with a substituted default
  forecast. \<open>main_mock_data.py\<close> does go on: \<open>if not forecast\<close> it builds one day from the
  current conditions, and the request below is answered, not rejected.
\<close>

theorem empty_forecast_not_rejected:
  "forecast_mock (clear_weather\<lparr>w_forecast := []\<rparr>) =
     [\<lparr>fc_temp_max = Val 28, fc_temp_min = Val 28, fc_humidity = Val 65,
       fc_wind_speed = Val 3.5, fc_weather = Val ''Clear'', fc_rain_probability = Val 0\<rparr>] \<and>
   \<not> isl (calculate_irrigation_mock (clear_weather\<lparr>w_forecast := []\<rparr>) 35.8 2 400 0.5 300)"
proof -
  have f: "forecast_mock (clear_weather\<lparr>w_forecast := []\<rparr>) =
     [\<lparr>fc_temp_max = Val 28, fc_temp_min = Val 28, fc_humidity = Val 65,
       fc_wind_speed = Val 3.5, fc_weather = Val ''Clear'', fc_rain_probability = Val 0\<rparr>]"
    by (simp only: forecast_mock_empty(1) fallback_day_eq[OF clear_current_get])
  have t: "- 237.3 < (28::real)" by simp
  obtain resp where
    "calculate_irrigation_mock (clear_weather\<lparr>w_forecast := []\<rparr>) 35.8 2 400 0.5 300 = Inr resp"
    using calculate_irrigation_mock_single[OF t t f] by blast
  then have "\<not> isl (calculate_irrigation_mock (clear_weather\<lparr>w_forecast := []\<rparr>) 35.8 2 400 0.5 300)"
    by simp
  with f show ?thesis by (rule conjI)
qed

text \<open>
  C5, amended. With an empty forecast window \<open>calculate_irrigation\<close> of
  \<open>main_mock_data.py\<close> raises no error at the boundary: it aggregates over a single
  fallback day built from the current conditions, exactly as if that day had been the
  forecast. When \<open>current.get\<close> yields numbers for the temperature (above \<open>-237.3\<close>; the
  defaults are 28 for the maximum and 20 for the minimum), for the humidity (default 65)
  and for the wind speed (default 3.5), and a string for the weather (default \<open>Clear\<close>),
  the fallback day holds exactly these values and a rain probability of 0, and a response
  is returned: its expected rain is 0 and its forecast summary joins that weather and the
  empty string of the padding day.
\<close>

theorem empty_forecast_fallback:
  "forecast_mock (weather\<lparr>w_forecast := []\<rparr>) = [fallback_day (w_current weather)] \<and>
   calculate_irrigation_mock (weather\<lparr>w_forecast := []\<rparr>) lat a n ndvi today =
     calculate_irrigation_mock (weather\<lparr>w_forecast := [fallback_day (w_current weather)]\<rparr>)
       lat a n ndvi today \<and>
   (entry_get (cur_temperature (w_current weather)) (Some 28) = Some tmax \<and> - 237.3 < tmax \<and>
    entry_get (cur_temperature (w_current weather)) (Some 20) = Some tmin \<and> - 237.3 < tmin \<and>
    entry_get (cur_humidity (w_current weather)) (Some 65) = Some hum \<and>
    entry_get (cur_wind_speed (w_current weather)) (Some 3.5) = Some wind \<and>
    entry_get (cur_weather (w_current weather)) (Some ''Clear'') = Some s \<longrightarrow>
      fallback_day (w_current weather) =
        \<lparr>fc_temp_max = Val tmax, fc_temp_min = Val tmin, fc_humidity = Val hum,
         fc_wind_speed = Val wind, fc_weather = Val s, fc_rain_probability = Val 0\<rparr> \<and>
      (\<exists>resp. calculate_irrigation_mock (weather\<lparr>w_forecast := []\<rparr>) lat a n ndvi today =
           Inr resp \<and>
         resp_forecast_summary resp = [s, []] \<and> resp_expected_rain_mm resp = 0))"
proof (intro conjI impI)
  show "forecast_mock (weather\<lparr>w_forecast := []\<rparr>) = [fallback_day (w_current weather)]"
    by (rule forecast_mock_empty(1))
  show "calculate_irrigation_mock (weather\<lparr>w_forecast := []\<rparr>) lat a n ndvi today =
     calculate_irrigation_mock (weather\<lparr>w_forecast := [fallback_day (w_current weather)]\<rparr>)
       lat a n ndvi today"
    by (rule calculate_irrigation_mock_empty_eq)
next
  assume h: "entry_get (cur_temperature (w_current weather)) (Some 28) = Some tmax \<and>
    - 237.3 < tmax \<and>
    entry_get (cur_temperature (w_current weather)) (Some 20) = Some tmin \<and> - 237.3 < tmin \<and>
    entry_get (cur_humidity (w_current weather)) (Some 65) = Some hum \<and>
    entry_get (cur_wind_speed (w_current weather)) (Some 3.5) = Some wind \<and>
    entry_get (cur_weather (w_current weather)) (Some ''Clear'') = Some s"
  then show d: "fallback_day (w_current weather) =
        \<lparr>fc_temp_max = Val tmax, fc_temp_min = Val tmin, fc_humidity = Val hum,
         fc_wind_speed = Val wind, fc_weather = Val s, fc_rain_probability = Val 0\<rparr>"
    by (intro fallback_day_eq) simp_all
  have f: "forecast_mock (weather\<lparr>w_forecast := []\<rparr>) =
      [\<lparr>fc_temp_max = Val tmax, fc_temp_min = Val tmin, fc_humidity = Val hum,
        fc_wind_speed = Val wind, fc_weather = Val s, fc_rain_probability = Val 0\<rparr>]"
    by (simp only: forecast_mock_empty(1) d)
  from h have t: "- 237.3 < tmax" "- 237.3 < tmin" by simp_all
  show "\<exists>resp. calculate_irrigation_mock (weather\<lparr>w_forecast := []\<rparr>) lat a n ndvi today =
           Inr resp \<and>
         resp_forecast_summary resp = [s, []] \<and> resp_expected_rain_mm resp = 0"
    by (rule calculate_irrigation_mock_single[OF t f])
qed

theorem empty_forecast_fallback_witness:
  "forecast_mock (clear_weather\<lparr>w_forecast := []\<rparr>) = [fallback_day (w_current clear_weather)] \<and>
   calculate_irrigation_mock (clear_weather\<lparr>w_forecast := []\<rparr>) 0 2 400 0.5 300 =
     calculate_irrigation_mock
       (clear_weather\<lparr>w_forecast := [fallback_day (w_current clear_weather)]\<rparr>) 0 2 400 0.5 300 \<and>
   fallback_day (w_current clear_weather) =
     \<lparr>fc_temp_max = Val 28, fc_temp_min = Val 28, fc_humidity = Val 65,
      fc_wind_speed = Val 3.5, fc_weather = Val ''Clear'', fc_rain_probability = Val 0\<rparr> \<and>
   (\<exists>resp. calculate_irrigation_mock (clear_weather\<lparr>w_forecast := []\<rparr>) 0 2 400 0.5 300 =
        Inr resp \<and>
      resp_forecast_summary resp = [''Clear'', []] \<and> resp_expected_rain_mm resp = 0)"
proof -
  have t: "- 237.3 < (28::real)" by simp
  note e = empty_forecast_fallback[of clear_weather 0 2 400 "0.5" 300 28 28 65 "3.5" "''Clear''",
      unfolded clear_current_get]
  from e t show ?thesis by blast
qed

text \<open>
  The fallback day inherits what the current conditions hold. A temperature of \<open>None\<close>
  (the service sent none) reaches \<open>calculate_et0\<close> and raises \<open>TypeError\<close>; a temperature
  of -238 overflows the exponential.
\<close>

lemma calculate_irrigation_mock_empty_raises:
  "calculate_irrigation_mock
     (clear_weather\<lparr>w_current := (w_current clear_weather)\<lparr>cur_temperature := PyNone\<rparr>,
                    w_forecast := []\<rparr>) 35.8 2 400 0.5 300 = Inl TypeError"
  "calculate_irrigation_mock
     (clear_weather\<lparr>w_current := (w_current clear_weather)\<lparr>cur_temperature := Val (- 238)\<rparr>,
                    w_forecast := []\<rparr>) 35.8 2 400 0.5 300 = Inl OverflowError"
  by (simp_all add: calculate_irrigation_mock_def irrigation_plan_mock_def forecast_mock_def
      fallback_day_def clear_weather_def entry_get_def entry_of_def calculate_et0_mock_py_def
      py_num_def math_acos_mock saturation_vp_overflow Let_def)

text \<open>
  \<open>main.py\<close> has no check of the window either: with an empty forecast the net depth is
  0, the baseline is 0, and the unguarded division of \<open>calculate_water_savings\<close> raises.
\<close>

lemma calculate_irrigation_main_empty:
  assumes "w_success weather"
  shows "calculate_irrigation_main (weather\<lparr>w_forecast := []\<rparr>) lat a n ndvi today =
           Inl ZeroDivisionError"
  using assms
  by (simp add: calculate_irrigation_main_def irrigation_plan_main_def
      net_irrigation_mm_def irrigation_m3_def traditional_m3_def
      calculate_water_savings_main_def py_div_def Let_def)

section \<open>The two cost formulas on doubles\<close>

lemma pow2_powr: "pow2 e = 2 powr of_int e"
proof (cases "0 \<le> e")
  case True
  then show ?thesis by (simp add: pow2_def powr_realpow[symmetric])
next
  case False
  have "(2::real) powr of_int e = 1 / 2 powr of_int (- e)"
    using powr_minus_divide[of "2::real" "of_int (- e)"] by simp
  also have "\<dots> = 1 / 2 ^ nat (- e)"
    using False by (simp add: powr_realpow[symmetric])
  finally show ?thesis using False by (simp add: pow2_def)
qed

text \<open>A positive \<open>x\<close> in the binade \<open>[2^k, 2^(k+1))\<close> is rounded to a multiple of \<open>2^(k-52)\<close>.\<close>

lemma binary64_eval:
  assumes "0 < x" and "pow2 k \<le> x" and "x < pow2 (k + 1)" and "- 1022 \<le> k"
  shows "binary64 x = of_int (round_half_even (x / pow2 (k - 52))) * pow2 (k - 52)"
proof -
  have "\<lfloor>log 2 x\<rfloor> = k"
    using assms by (subst floor_log_eq_powr_iff) (simp_all add: pow2_powr)
  then show ?thesis using assms(1,4) by (simp add: binary64_def Let_def)
qed

text \<open>Below \<open>2^(-1022)\<close> a positive \<open>x\<close> is rounded to a multiple of \<open>2^(-1074)\<close>.\<close>

lemma binary64_eval_subnormal:
  assumes "0 < x" and "x < pow2 (- 1022)"
  shows "binary64 x = of_int (round_half_even (x / pow2 (- 1074))) * pow2 (- 1074)"
proof -
  have "log 2 x < - 1022"
    using assms by (subst log_less_iff) (simp_all add: pow2_powr)
  then have "\<lfloor>log 2 x\<rfloor> < - 1022" by linarith
  then have "max \<lfloor>log 2 x\<rfloor> (- 1022) = - 1022" by simp
  then show ?thesis using assms(1) by (simp add: binary64_def Let_def)
qed

text \<open>The doubles that the two computations meet on a saved volume of 1.13 cubic metres.\<close>

lemma binary64_1_13: "binary64 1.13 = 1272266894732165 / 1125899906842624"
  by (subst binary64_eval[where k = 0]) (simp_all add: round_half_even_def Let_def pow2_def)

lemma binary64_1_13_fixed:
  "binary64 (1272266894732165 / 1125899906842624) = 1272266894732165 / 1125899906842624"
  by (subst binary64_eval[where k = 0]) (simp_all add: round_half_even_def Let_def pow2_def)

lemma binary64_0_0005: "binary64 0.0005 = 1152921504606847 / 2305843009213693952"
  by (subst binary64_eval[where k = "- 11"]) (simp_all add: round_half_even_def Let_def pow2_def)

lemma binary64_liters: "binary64 (1272266894732165 / 1125899906842624 * 1000) = 1130"
  by (subst binary64_eval[where k = 10]) (simp_all add: round_half_even_def Let_def pow2_def)

lemma binary64_cost_liters:
  "binary64 (1130 * (1152921504606847 / 2305843009213693952)) =
     5089067578928661 / 9007199254740992"
  by (subst binary64_eval[where k = "- 1"]) (simp_all add: round_half_even_def Let_def pow2_def)

lemma binary64_cost_m3:
  "binary64 (1272266894732165 / 1125899906842624 * 0.5) = 1272266894732165 / 2251799813685248"
  by (subst binary64_eval[where k = "- 1"]) (simp_all add: round_half_even_def Let_def pow2_def)

lemma py_round_cost_liters: "py_round (5089067578928661 / 9007199254740992) 2 = 0.57"
  by (simp add: py_round_def round_half_even_def Let_def)

lemma py_round_cost_m3: "py_round (1272266894732165 / 2251799813685248) 2 = 0.56"
  by (simp add: py_round_def round_half_even_def Let_def)

text \<open>
  C10, as the source has it. The claim reads: \<open>(s * 1000) * 0.0005\<close> equals \<open>s * 0.5\<close>
  exactly, so both implementations report the same \<open>cost_saved_tnd\<close> for equal saved
  volumes. On doubles the litre-based product is rounded twice, and 0.0005 is not a double:
  for a baseline of 1.13 and a smart volume of 0 it is 0.5650000000000001, reported as
  0.57, while the product by 0.5 is the double just below 0.565, reported as 0.56.
\<close>

theorem cost_saved_tnd_differs_on_doubles:
  "map_sum id cost_saved_tnd (calculate_water_savings_main_f64 (binary64 1.13) 0) = Inr 0.57 \<and>
   map_sum id cost_saved_tnd (calculate_water_savings_mock_f64 (binary64 1.13) 0) = Inr 0.56"
proof -
  let ?d = "1272266894732165 / 1125899906842624 :: real"
  have p: "0 < ?d" "?d \<noteq> 0" "\<not> (?d \<le> 0 \<or> (0::real) < 0)" by simp_all
  have m: "max 0 ?d = ?d" by simp
  have 1: "map_sum id cost_saved_tnd (calculate_water_savings_main_f64 ?d 0) =
      Inr (py_round (binary64 (binary64 (binary64 (?d - 0) * 1000) * binary64 0.0005)) 2)"
    unfolding calculate_water_savings_main_f64_def Let_def py_div_def diff_zero
      binary64_1_13_fixed
    by (simp only: p if_False sum.case map_sum.simps savings_report.select_convs)
  have 2: "map_sum id cost_saved_tnd (calculate_water_savings_mock_f64 ?d 0) =
      Inr (py_round (binary64 (max 0 (binary64 (?d - 0)) * 0.5)) 2)"
    unfolding calculate_water_savings_mock_f64_def Let_def py_div_def diff_zero
      binary64_1_13_fixed m
    by (simp only: p if_True if_False sum.case map_sum.simps savings_report.select_convs)
  show ?thesis
    unfolding binary64_1_13 1 2 diff_zero binary64_1_13_fixed m binary64_liters binary64_0_0005
      binary64_cost_liters binary64_cost_m3 py_round_cost_liters py_round_cost_m3
    by simp
qed

section \<open>The traditional baseline\<close>

text \<open>In exact arithmetic the saving is half of the smart volume, a third of the baseline.\<close>

lemma baseline_difference: "traditional_m3 m3 - m3 = m3 / 2"
  by (simp add: traditional_m3_def)

lemma baseline_quotient: "0 < m3 \<Longrightarrow> (m3 / 2) / traditional_m3 m3 * 100 = 100 / 3"
  by (simp add: traditional_m3_def field_simps)

lemma savings_main_baseline:
  assumes "0 < m3"
  shows "calculate_water_savings_main (traditional_m3 m3) m3 =
     Inr \<lparr>water_saved_liters = py_round (m3 / 2 * 1000) 2,
          water_saved_cubic_meters = py_round (m3 / 2) 2,
          percentage_saved = 33.33,
          cost_saved_tnd = py_round (m3 / 2 * 1000 * 0.0005) 2,
          cost_saved_usd = py_round (m3 / 2 * 1000 * 0.0005 * 0.32) 2\<rparr>"
proof -
  have n: "traditional_m3 m3 \<noteq> 0" using assms by (simp add: traditional_m3_def)
  show ?thesis
    by (simp only: calculate_water_savings_main_eq[OF n] baseline_difference
        baseline_quotient[OF assms] py_round_third)
qed

lemma savings_mock_baseline:
  assumes "0 < m3"
  shows "calculate_water_savings_mock (traditional_m3 m3) m3 =
     Inr \<lparr>water_saved_liters = py_round (m3 / 2 * 1000) 2,
          water_saved_cubic_meters = py_round (m3 / 2) 2,
          percentage_saved = 33.33,
          cost_saved_tnd = py_round (m3 / 2 * 0.5) 2,
          cost_saved_usd = py_round (m3 / 2 * 0.5 * 0.32) 2\<rparr>"
proof -
  have n: "0 < traditional_m3 m3" using assms by (simp add: traditional_m3_def)
  have s: "0 \<le> m3" using assms by simp
  have m: "max 0 (m3 / 2) = m3 / 2" using assms by simp
  show ?thesis
    by (simp only: calculate_water_savings_mock_eq[OF n s] baseline_difference m
        baseline_quotient[OF assms] py_round_third)
qed

lemma calculate_irrigation_main_savings:
  assumes "calculate_irrigation_main weather lat a n ndvi today = Inr resp"
    and "irrigation_plan_main weather lat a n ndvi today = Inr p"
  shows "calculate_water_savings_main (p_traditional_m3 p) (p_irrigation_m3 p) =
           Inr (resp_savings resp)"
  using assms
  by (auto simp add: calculate_irrigation_main_def split: sum.splits)

lemma calculate_irrigation_mock_savings:
  assumes "calculate_irrigation_mock weather lat a n ndvi today = Inr resp"
    and "irrigation_plan_mock weather lat a n ndvi today = Inr p"
  shows "calculate_water_savings_mock (p_traditional_m3 p) (p_irrigation_m3 p) =
           Inr (resp_savings resp)"
  using assms
  by (auto simp add: calculate_irrigation_mock_def split: sum.splits)

text \<open>
  Both pipelines: the baseline is 1.5 times the volume, and for a positive volume
  \<open>calculate_water_savings\<close> returns the report that every response carries.
\<close>

lemma baseline_savings_exact:
  "(irrigation_plan_main weather lat a n ndvi today = Inr p \<and> 0 < p_irrigation_m3 p \<longrightarrow>
      p_traditional_m3 p = p_irrigation_m3 p * 1.5 \<and>
      p_traditional_m3 p - p_irrigation_m3 p = p_irrigation_m3 p / 2 \<and>
      (\<exists>r. calculate_water_savings_main (p_traditional_m3 p) (p_irrigation_m3 p) = Inr r \<and>
         water_saved_cubic_meters r = py_round (p_irrigation_m3 p / 2) 2 \<and>
         percentage_saved r = 33.33 \<and>
         (\<forall>resp. calculate_irrigation_main weather lat a n ndvi today = Inr resp \<longrightarrow>
            resp_savings resp = r))) \<and>
   (irrigation_plan_mock weather lat a n ndvi today = Inr q \<and> 0 < p_irrigation_m3 q \<longrightarrow>
      p_traditional_m3 q = p_irrigation_m3 q * 1.5 \<and>
      p_traditional_m3 q - p_irrigation_m3 q = p_irrigation_m3 q / 2 \<and>
      (\<exists>r. calculate_water_savings_mock (p_traditional_m3 q) (p_irrigation_m3 q) = Inr r \<and>
         water_saved_cubic_meters r = py_round (p_irrigation_m3 q / 2) 2 \<and>
         percentage_saved r = 33.33 \<and>
         (\<forall>resp. calculate_irrigation_mock weather lat a n ndvi today = Inr resp \<longrightarrow>
            resp_savings resp = r)))"
proof (intro conjI impI)
  assume h: "irrigation_plan_main weather lat a n ndvi today = Inr p \<and> 0 < p_irrigation_m3 p"
  then have t: "p_traditional_m3 p = traditional_m3 (p_irrigation_m3 p)"
    using irrigation_plan_main_fields(4) by blast
  then show "p_traditional_m3 p = p_irrigation_m3 p * 1.5" by (simp add: traditional_m3_def)
  show "p_traditional_m3 p - p_irrigation_m3 p = p_irrigation_m3 p / 2"
    by (simp only: t baseline_difference)
  let ?r = "\<lparr>water_saved_liters = py_round (p_irrigation_m3 p / 2 * 1000) 2,
          water_saved_cubic_meters = py_round (p_irrigation_m3 p / 2) 2,
          percentage_saved = 33.33,
          cost_saved_tnd = py_round (p_irrigation_m3 p / 2 * 1000 * 0.0005) 2,
          cost_saved_usd = py_round (p_irrigation_m3 p / 2 * 1000 * 0.0005 * 0.32) 2\<rparr>"
  have s: "calculate_water_savings_main (p_traditional_m3 p) (p_irrigation_m3 p) = Inr ?r"
    using h by (simp only: t savings_main_baseline)
  have "resp_savings resp = ?r"
    if "calculate_irrigation_main weather lat a n ndvi today = Inr resp" for resp
    using calculate_irrigation_main_savings[OF that conjunct1[OF h]] s by simp
  then show "\<exists>r. calculate_water_savings_main (p_traditional_m3 p) (p_irrigation_m3 p) = Inr r \<and>
         water_saved_cubic_meters r = py_round (p_irrigation_m3 p / 2) 2 \<and>
         percentage_saved r = 33.33 \<and>
         (\<forall>resp. calculate_irrigation_main weather lat a n ndvi today = Inr resp \<longrightarrow>
            resp_savings resp = r)"
    using s by (intro exI[of _ ?r]) simp
next
  assume h: "irrigation_plan_mock weather lat a n ndvi today = Inr q \<and> 0 < p_irrigation_m3 q"
  then have t: "p_traditional_m3 q = traditional_m3 (p_irrigation_m3 q)"
    using irrigation_plan_mock_fields(4) by blast
  then show "p_traditional_m3 q = p_irrigation_m3 q * 1.5" by (simp add: traditional_m3_def)
  show "p_traditional_m3 q - p_irrigation_m3 q = p_irrigation_m3 q / 2"
    by (simp only: t baseline_difference)
  let ?r = "\<lparr>water_saved_liters = py_round (p_irrigation_m3 q / 2 * 1000) 2,
          water_saved_cubic_meters = py_round (p_irrigation_m3 q / 2) 2,
          percentage_saved = 33.33,
          cost_saved_tnd = py_round (p_irrigation_m3 q / 2 * 0.5) 2,
          cost_saved_usd = py_round (p_irrigation_m3 q / 2 * 0.5 * 0.32) 2\<rparr>"
  have s: "calculate_water_savings_mock (p_traditional_m3 q) (p_irrigation_m3 q) = Inr ?r"
    using h by (simp only: t savings_mock_baseline)
  have "resp_savings resp = ?r"
    if "calculate_irrigation_mock weather lat a n ndvi today = Inr resp" for resp
    using calculate_irrigation_mock_savings[OF that conjunct1[OF h]] s by simp
  then show "\<exists>r. calculate_water_savings_mock (p_traditional_m3 q) (p_irrigation_m3 q) = Inr r \<and>
         water_saved_cubic_meters r = py_round (p_irrigation_m3 q / 2) 2 \<and>
         percentage_saved r = 33.33 \<and>
         (\<forall>resp. calculate_irrigation_mock weather lat a n ndvi today = Inr resp \<longrightarrow>
            resp_savings resp = r)"
    using s by (intro exI[of _ ?r]) simp
qed

lemma calculate_irrigation_main_clear:
  "\<exists>resp. calculate_irrigation_main clear_weather 0 2 400 0.5 300 = Inr resp"
proof -
  obtain p where p: "irrigation_plan_main clear_weather 0 2 400 0.5 300 = Inr p"
      "0 < p_irrigation_m3 p"
    using plan_main_clear by blast
  have t: "p_traditional_m3 p = traditional_m3 (p_irrigation_m3 p)"
    using p(1) by (rule irrigation_plan_main_fields(4))
  have "\<exists>r. calculate_water_savings_main (p_traditional_m3 p) (p_irrigation_m3 p) = Inr r"
    using savings_main_baseline[OF p(2)] by (simp only: t) blast
  then obtain r where
    r: "calculate_water_savings_main (p_traditional_m3 p) (p_irrigation_m3 p) = Inr r"
    by blast
  show ?thesis
    unfolding calculate_irrigation_main_def p(1) sum.case r take_clear(1,3)
      forecast_summary_main_clear
    by (simp add: entry_index_def)
qed

lemma forecast_summary_mock_clear:
  "forecast_summary_mock [clear_day, clear_day, clear_day] = Inr [''Clear'', ''Clear'', ''Clear'']"
  by (simp add: forecast_summary_mock_def clear_day_def entry_get_def)

lemma calculate_irrigation_mock_clear:
  "\<exists>resp. calculate_irrigation_mock clear_weather 0 2 400 0.5 300 = Inr resp"
proof -
  obtain q where q: "irrigation_plan_mock clear_weather 0 2 400 0.5 300 = Inr q"
    using plan_mock_clear by blast
  obtain r where
    r: "calculate_water_savings_mock (p_traditional_m3 q) (p_irrigation_m3 q) = Inr r"
    using calculate_water_savings_mock_returns by blast
  show ?thesis
    unfolding calculate_irrigation_mock_def q sum.case r forecast_mock_clear
      forecast_summary_mock_clear
    by simp
qed

subsection \<open>The baseline on doubles\<close>

text \<open>
  The error of one rounding: at most half a unit of the last place, which for a normal
  double is a relative error of at most \<open>2^(-53)\<close>.
\<close>

lemma binary64_baseline:
  "binary64 (7276108163233185 / 17592186044416 * 1.5) = 5457081122424889 / 8796093022208"
  by (subst binary64_eval[where k = 9]) (simp_all add: round_half_even_def Let_def pow2_def)

lemma binary64_saved:
  "binary64 (5457081122424889 / 8796093022208 - 7276108163233185 / 17592186044416) =
     3638054081616593 / 17592186044416"
  by (subst binary64_eval[where k = 7]) (simp_all add: round_half_even_def Let_def pow2_def)

lemma py_round_saved: "py_round (3638054081616593 / 17592186044416) 2 = 206.8"
  by (simp add: py_round_def round_half_even_def Let_def)

lemma binary64_tiny:
  "binary64 (pow2 (- 1074) * 1.5) = 2 * pow2 (- 1074)"
  "binary64 (2 * pow2 (- 1074) - pow2 (- 1074)) = pow2 (- 1074)"
  by (subst binary64_eval_subnormal; simp add: round_half_even_def Let_def pow2_def)+

lemma round_half_even_error: "\<bar>of_int (round_half_even r) - r\<bar> \<le> 1 / 2"
proof -
  have "of_int \<lfloor>r\<rfloor> \<le> r" "r < of_int \<lfloor>r\<rfloor> + 1" by linarith+
  then show ?thesis by (auto simp add: round_half_even_def Let_def)
qed

lemma round_half_even_nearest:
  assumes "of_int n - 1 / 2 < r" and "r < of_int n + 1 / 2"
  shows "round_half_even r = n"
proof -
  have "\<lfloor>r\<rfloor> = n \<or> \<lfloor>r\<rfloor> = n - 1" using assms by linarith
  then show ?thesis
  proof
    assume f: "\<lfloor>r\<rfloor> = n"
    then show ?thesis using assms by (simp add: round_half_even_def Let_def)
  next
    assume f: "\<lfloor>r\<rfloor> = n - 1"
    then show ?thesis using assms by (simp add: round_half_even_def Let_def)
  qed
qed

lemma py_round_near_third:
  assumes "33.325 < p" and "p < 33.335"
  shows "py_round p 2 = 33.33"
proof -
  have "round_half_even (p * 10 ^ 2) = 3333"
    using assms by (intro round_half_even_nearest) simp_all
  then show ?thesis by (simp add: py_round_def)
qed

lemma pow2_pos: "0 < pow2 e"
  by (simp add: pow2_def)

lemma binary64_error:
  assumes "pow2 (- 1022) \<le> y"
  shows "\<bar>binary64 y - y\<bar> \<le> y / 2 ^ 53"
proof -
  have y: "0 < y" using assms pow2_pos[of "- 1022"] by linarith
  define k where "k = \<lfloor>log 2 y\<rfloor>"
  define u where "u = pow2 (k - 52)"
  have "of_int (- 1022) \<le> log 2 y"
    using assms y by (subst le_log_iff) (simp_all add: pow2_powr)
  then have k: "- 1022 \<le> k" unfolding k_def by (subst le_floor_iff)
  have u: "u = 2 powr of_int k / 2 ^ 52"
  proof -
    have "u = 2 powr (of_int k - 52)" by (simp add: u_def pow2_powr)
    also have "\<dots> = 2 powr of_int k / 2 powr 52" by (rule powr_diff)
    also have "(2::real) powr 52 = 2 ^ 52" by (simp add: powr_realpow[symmetric])
    finally show ?thesis .
  qed
  have "of_int k \<le> log 2 y" by (simp add: k_def)
  then have "2 powr of_int k \<le> 2 powr log 2 y" by simp
  then have ky: "2 powr of_int k \<le> y" using y by simp
  have up: "0 < u" by (simp add: u)
  have uy: "u \<le> y / 2 ^ 52" using ky by (simp add: u divide_right_mono)
  have b: "binary64 y = of_int (round_half_even (y / u)) * u"
    using y k by (simp add: binary64_def Let_def k_def u_def)
  have "binary64 y - y = (of_int (round_half_even (y / u)) - y / u) * u"
    using up by (simp add: b algebra_simps)
  then have "\<bar>binary64 y - y\<bar> = \<bar>of_int (round_half_even (y / u)) - y / u\<bar> * u"
    using up by (simp add: abs_mult)
  also have "\<dots> \<le> 1 / 2 * u"
    using up round_half_even_error[of "y / u"] by (intro mult_right_mono) simp_all
  also have "\<dots> \<le> 1 / 2 * (y / 2 ^ 52)" using uy by simp
  also have "\<dots> = y / 2 ^ 53" by simp
  finally show ?thesis .
qed

lemma binary64_bounds:
  assumes "pow2 (- 1022) \<le> y"
  shows "y * (1 - 1 / 10 ^ 6) \<le> binary64 y" and "binary64 y \<le> y * (1 + 1 / 10 ^ 6)"
proof -
  have y: "0 < y" using assms pow2_pos[of "- 1022"] by linarith
  have "y / 2 ^ 53 \<le> y / 10 ^ 6" using y by (intro divide_left_mono) simp_all
  with binary64_error[OF assms] have e: "\<bar>binary64 y - y\<bar> \<le> y / 10 ^ 6" by linarith
  from e have "y - y / 10 ^ 6 \<le> binary64 y" "binary64 y \<le> y + y / 10 ^ 6" by linarith+
  then show "y * (1 - 1 / 10 ^ 6) \<le> binary64 y" "binary64 y \<le> y * (1 + 1 / 10 ^ 6)"
    by (simp_all add: algebra_simps)
qed

lemma pow2_1020: "pow2 (- 1020) = 4 * pow2 (- 1022)"
  by (simp add: pow2_def)

lemma pow2_1022_small: "pow2 (- 1022) \<le> 1 / 1000"
  by (simp add: pow2_def)

text \<open>
  The lines \<open>traditional_m3 = irrigation_m3 * 1.5\<close> and
  \<open>calculate_water_savings(traditional_m3, irrigation_m3)\<close> on doubles, for a volume from
  \<open>2^(-1020)\<close> on, where every intermediate result is a normal double: four roundings,
  each of relative error below \<open>10^(-6)\<close>, leave the percentage between 33.331 and 33.3342.
\<close>

lemma percentage_on_doubles:
  assumes x: "pow2 (- 1020) \<le> x"
  shows "0 < traditional_m3_f64 x"
    and "0 < binary64 (traditional_m3_f64 x - x)"
    and "\<bar>binary64 (traditional_m3_f64 x - x) - x / 2\<bar> \<le> x / 2 ^ 51"
    and "33.325 < binary64 (binary64 (binary64 (traditional_m3_f64 x - x) /
                                       traditional_m3_f64 x) * 100)"
    and "binary64 (binary64 (binary64 (traditional_m3_f64 x - x) /
                              traditional_m3_f64 x) * 100) < 33.335"
proof -
  define m where "m = pow2 (- 1022)"
  have m: "0 < m" "m \<le> 1 / 1000" "4 * m \<le> x"
    using pow2_pos[of "- 1022"] pow2_1022_small x by (simp_all add: m_def pow2_1020)
  have xp: "0 < x" using m by linarith
  define t where "t = traditional_m3_f64 x"
  define s where "s = binary64 (t - x)"
  define q where "q = binary64 (s / t)"
  define p where "p = binary64 (q * 100)"
  have "m \<le> x * 1.5" using m by linarith
  then have y: "pow2 (- 1022) \<le> x * 1.5" by (simp only: m_def)
  have t: "1.499998 * x \<le> t" "t \<le> 1.500002 * x"
    using binary64_bounds[OF y] xp by (simp_all add: t_def traditional_m3_f64_def)
  have d: "0.499998 * x \<le> t - x" "t - x \<le> 0.500002 * x" using t by simp_all
  have "m \<le> t - x" using d(1) m by simp
  then have dn: "pow2 (- 1022) \<le> t - x" by (simp only: m_def)
  have s: "0.499997 * x \<le> s" "s \<le> 0.500003 * x"
    using binary64_bounds[OF dn] d xp by (simp_all add: s_def)
  have tp: "0 < t" using t(1) xp by simp
  have sp: "0 < s" using s(1) xp by simp
  have e1: "\<bar>t - x * 1.5\<bar> \<le> x * 1.5 / 2 ^ 53"
    using binary64_error[OF y] by (simp add: t_def traditional_m3_f64_def)
  have e2: "\<bar>s - (t - x)\<bar> \<le> (t - x) / 2 ^ 53"
    using binary64_error[OF dn] by (simp add: s_def)
  have "(t - x) / 2 ^ 53 \<le> 0.500002 * x / 2 ^ 53" using d(2) by (simp add: divide_right_mono)
  with e1 e2 have h: "\<bar>s - x / 2\<bar> \<le> x * 1.5 / 2 ^ 53 + 0.500002 * x / 2 ^ 53" by linarith
  have "x * 1.5 / 2 ^ 53 + 0.500002 * x / 2 ^ 53 \<le> x / 2 ^ 51" using xp by simp
  with h have half: "\<bar>s - x / 2\<bar> \<le> x / 2 ^ 51" by linarith
  have r: "0.33333 \<le> s / t" "s / t \<le> 0.33334"
  proof -
    have "0.33333 * t \<le> s" using t(2) s(1) xp by simp
    then show "0.33333 \<le> s / t" using tp by (simp add: pos_le_divide_eq)
    have "s \<le> 0.33334 * t" using t(1) s(2) xp by simp
    then show "s / t \<le> 0.33334" using tp by (simp add: pos_divide_le_eq)
  qed
  have "(1::real) / 1000 \<le> 0.33333" by simp
  with r(1) m(2) have "m \<le> s / t" by linarith
  then have rn: "pow2 (- 1022) \<le> s / t" by (simp only: m_def)
  have q: "0.33332 \<le> q" "q \<le> 0.333341"
    using binary64_bounds[OF rn] r by (simp_all add: q_def)
  have "m \<le> q * 100" using q(1) m(2) by simp
  then have qn: "pow2 (- 1022) \<le> q * 100" by (simp only: m_def)
  have p: "33.331 \<le> p" "p \<le> 33.3342"
    using binary64_bounds[OF qn] q by (simp_all add: p_def)
  show "0 < traditional_m3_f64 x" using tp by (simp add: t_def)
  show "0 < binary64 (traditional_m3_f64 x - x)" using sp by (simp add: s_def t_def)
  show "\<bar>binary64 (traditional_m3_f64 x - x) - x / 2\<bar> \<le> x / 2 ^ 51"
    using half by (simp add: s_def t_def)
  show "33.325 < binary64 (binary64 (binary64 (traditional_m3_f64 x - x) /
                                       traditional_m3_f64 x) * 100)"
    using p(1) by (simp add: p_def q_def s_def t_def)
  show "binary64 (binary64 (binary64 (traditional_m3_f64 x - x) /
                              traditional_m3_f64 x) * 100) < 33.335"
    using p(2) by (simp add: p_def q_def s_def t_def)
qed

lemma percentage_saved_f64:
  assumes "pow2 (- 1020) \<le> x"
  shows "\<exists>r. calculate_water_savings_main_f64 (traditional_m3_f64 x) x = Inr r \<and>
           percentage_saved r = 33.33"
    and "\<exists>r. calculate_water_savings_mock_f64 (traditional_m3_f64 x) x = Inr r \<and>
           percentage_saved r = 33.33"
proof -
  note p = percentage_on_doubles[OF assms]
  have xp: "0 < x" using assms pow2_pos[of "- 1020"] by linarith
  have n: "traditional_m3_f64 x \<noteq> 0" "\<not> (traditional_m3_f64 x \<le> 0 \<or> x < 0)"
    using p(1) xp by simp_all
  have m: "max 0 (binary64 (traditional_m3_f64 x - x)) = binary64 (traditional_m3_f64 x - x)"
    using p(2) by simp
  note r = py_round_near_third[OF p(4,5)]
  show "\<exists>r. calculate_water_savings_main_f64 (traditional_m3_f64 x) x = Inr r \<and>
           percentage_saved r = 33.33"
    unfolding calculate_water_savings_main_f64_def Let_def py_div_def
    by (simp only: n if_False sum.case r) simp
  show "\<exists>r. calculate_water_savings_mock_f64 (traditional_m3_f64 x) x = Inr r \<and>
           percentage_saved r = 33.33"
    unfolding calculate_water_savings_mock_f64_def Let_def py_div_def m
    by (simp only: n p(1) if_True if_False sum.case r) simp
qed

text \<open>The smallest positive double: its baseline is a tie and rounds to the even neighbour.\<close>

lemma binary64_half: "binary64 (1 / 2) = 1 / 2" "binary64 (1 / 2 * 100) = 50"
  by (subst binary64_eval[where k = "- 1"], simp_all add: round_half_even_def Let_def pow2_def)
     (subst binary64_eval[where k = 5], simp_all add: round_half_even_def Let_def pow2_def)

lemma percentage_saved_subnormal:
  "map_sum id percentage_saved
     (calculate_water_savings_main_f64 (traditional_m3_f64 (pow2 (- 1074))) (pow2 (- 1074))) =
     Inr 50"
proof -
  have t: "traditional_m3_f64 (pow2 (- 1074)) = 2 * pow2 (- 1074)"
    by (simp only: traditional_m3_f64_def binary64_tiny)
  have n: "2 * pow2 (- 1074) \<noteq> 0" using pow2_pos[of "- 1074"] by simp
  have q: "pow2 (- 1074) / (2 * pow2 (- 1074)) = 1 / 2" using pow2_pos[of "- 1074"] by simp
  have r: "py_round 50 2 = 50" by (simp add: py_round_def round_half_even_def)
  show ?thesis
    unfolding t calculate_water_savings_main_f64_def Let_def py_div_def binary64_tiny
    by (simp only: n if_False sum.case map_sum.simps savings_report.select_convs q
        binary64_half r id_apply)
qed

text \<open>
  C9, as the source has it. The claim reads: the traditional baseline is exactly 1.5 times
  the smart volume, so for every input whose volume \<open>irrigation_m3\<close> is positive the
  reported \<open>percentage_saved\<close> is 33.33 and \<open>water_saved_m3\<close> is exactly half of
  \<open>irrigation_m3\<close>. On doubles the product \<open>irrigation_m3 * 1.5\<close> is rounded. For a
  volume of 413.5988639992084 cubic metres (the double \<open>7276108163233185 / 2^44\<close>) the
  baseline is 620.3982959988126, and the saved volume is 206.79943199960422, which is
  half of the volume and \<open>2^(-45)\<close> more; the report shows 206.8. For the smallest
  positive double as volume the baseline rounds to twice the volume, and the reported
  \<open>percentage_saved\<close> is 50.
\<close>

theorem baseline_saving_not_half_on_doubles:
  "traditional_m3_f64 (7276108163233185 / 17592186044416) = 5457081122424889 / 8796093022208 \<and>
   binary64 (5457081122424889 / 8796093022208 - 7276108163233185 / 17592186044416) =
     7276108163233185 / 17592186044416 / 2 + 1 / 35184372088832 \<and>
   map_sum id water_saved_cubic_meters
     (calculate_water_savings_mock_f64 (traditional_m3_f64 (7276108163233185 / 17592186044416))
        (7276108163233185 / 17592186044416)) = Inr 206.8 \<and>
   map_sum id percentage_saved
     (calculate_water_savings_main_f64 (traditional_m3_f64 (pow2 (- 1074))) (pow2 (- 1074))) =
     Inr 50"
proof -
  let ?x = "7276108163233185 / 17592186044416 :: real"
  let ?t = "5457081122424889 / 8796093022208 :: real"
  let ?s = "3638054081616593 / 17592186044416 :: real"
  have p: "\<not> (?t \<le> 0 \<or> ?x < 0)" "0 < ?t" "?t \<noteq> 0" by simp_all
  have m: "max 0 ?s = ?s" by simp
  have 1: "traditional_m3_f64 ?x = ?t" by (simp only: traditional_m3_f64_def binary64_baseline)
  have 2: "binary64 (?t - ?x) = ?x / 2 + 1 / 35184372088832"
    unfolding binary64_saved by simp
  have 3: "map_sum id water_saved_cubic_meters (calculate_water_savings_mock_f64 ?t ?x) =
      Inr (py_round (max 0 (binary64 (?t - ?x))) 2)"
    unfolding calculate_water_savings_mock_f64_def Let_def py_div_def
    by (simp only: p if_True if_False sum.case map_sum.simps savings_report.select_convs)
  have 4: "map_sum id water_saved_cubic_meters
      (calculate_water_savings_mock_f64 (traditional_m3_f64 ?x) ?x) = Inr 206.8"
    unfolding 1 3 binary64_saved m py_round_saved by simp
  from 1 2 4 percentage_saved_subnormal show ?thesis by (intro conjI)
qed

text \<open>
  C9, amended. In exact arithmetic the traditional baseline of both pipelines is 1.5 times
  the volume \<open>irrigation_m3\<close>, the saved volume is half of the volume, and for a positive
  volume \<open>calculate_water_savings\<close> returns a report whose \<open>percentage_saved\<close> is 33.33
  and whose \<open>water_saved_cubic_meters\<close> is half of the volume rounded to two decimals;
  every response carries this report. On doubles, for every volume \<open>x\<close> from \<open>2^(-1020)\<close>
  to \<open>2^1000\<close>, the saved volume differs from half of \<open>x\<close> by at most \<open>x / 2^51\<close>, and
  the reported \<open>percentage_saved\<close> is 33.33 in \<open>main.py\<close> and in \<open>main_mock_data.py\<close>.
\<close>

theorem baseline_savings_constant:
  "(irrigation_plan_main weather lat a n ndvi today = Inr p \<and> 0 < p_irrigation_m3 p \<longrightarrow>
      p_traditional_m3 p = p_irrigation_m3 p * 1.5 \<and>
      p_traditional_m3 p - p_irrigation_m3 p = p_irrigation_m3 p / 2 \<and>
      (\<exists>r. calculate_water_savings_main (p_traditional_m3 p) (p_irrigation_m3 p) = Inr r \<and>
         water_saved_cubic_meters r = py_round (p_irrigation_m3 p / 2) 2 \<and>
         percentage_saved r = 33.33 \<and>
         (\<forall>resp. calculate_irrigation_main weather lat a n ndvi today = Inr resp \<longrightarrow>
            resp_savings resp = r))) \<and>
   (irrigation_plan_mock weather lat a n ndvi today = Inr q \<and> 0 < p_irrigation_m3 q \<longrightarrow>
      p_traditional_m3 q = p_irrigation_m3 q * 1.5 \<and>
      p_traditional_m3 q - p_irrigation_m3 q = p_irrigation_m3 q / 2 \<and>
      (\<exists>r. calculate_water_savings_mock (p_traditional_m3 q) (p_irrigation_m3 q) = Inr r \<and>
         water_saved_cubic_meters r = py_round (p_irrigation_m3 q / 2) 2 \<and>
         percentage_saved r = 33.33 \<and>
         (\<forall>resp. calculate_irrigation_mock weather lat a n ndvi today = Inr resp \<longrightarrow>
            resp_savings resp = r))) \<and>
   (pow2 (- 1020) \<le> x \<and> x \<le> pow2 1000 \<longrightarrow>
      \<bar>binary64 (traditional_m3_f64 x - x) - x / 2\<bar> \<le> x / 2 ^ 51 \<and>
      (\<exists>r. calculate_water_savings_main_f64 (traditional_m3_f64 x) x = Inr r \<and>
         percentage_saved r = 33.33) \<and>
      (\<exists>r. calculate_water_savings_mock_f64 (traditional_m3_f64 x) x = Inr r \<and>
         percentage_saved r = 33.33))"
proof -
  note e = baseline_savings_exact[of weather lat a n ndvi today p q]
  have "\<bar>binary64 (traditional_m3_f64 x - x) - x / 2\<bar> \<le> x / 2 ^ 51 \<and>
      (\<exists>r. calculate_water_savings_main_f64 (traditional_m3_f64 x) x = Inr r \<and>
         percentage_saved r = 33.33) \<and>
      (\<exists>r. calculate_water_savings_mock_f64 (traditional_m3_f64 x) x = Inr r \<and>
         percentage_saved r = 33.33)"
    if "pow2 (- 1020) \<le> x"
    using percentage_on_doubles(3)[OF that] percentage_saved_f64[OF that] by (intro conjI)
  with e show ?thesis by blast
qed

theorem baseline_savings_constant_witness:
  "(\<exists>p resp. irrigation_plan_main clear_weather 0 2 400 0.5 300 = Inr p \<and>
      0 < p_irrigation_m3 p \<and>
      calculate_irrigation_main clear_weather 0 2 400 0.5 300 = Inr resp \<and>
      water_saved_cubic_meters (resp_savings resp) = py_round (p_irrigation_m3 p / 2) 2 \<and>
      percentage_saved (resp_savings resp) = 33.33) \<and>
   (\<exists>q resp. irrigation_plan_mock clear_weather 0 2 400 0.5 300 = Inr q \<and>
      0 < p_irrigation_m3 q \<and>
      calculate_irrigation_mock clear_weather 0 2 400 0.5 300 = Inr resp \<and>
      water_saved_cubic_meters (resp_savings resp) = py_round (p_irrigation_m3 q / 2) 2 \<and>
      percentage_saved (resp_savings resp) = 33.33) \<and>
   \<bar>binary64 (traditional_m3_f64 (7276108163233185 / 17592186044416) -
       7276108163233185 / 17592186044416) - 7276108163233185 / 17592186044416 / 2\<bar> \<le>
     7276108163233185 / 17592186044416 / 2 ^ 51 \<and>
   (\<exists>r. calculate_water_savings_main_f64
           (traditional_m3_f64 (7276108163233185 / 17592186044416))
           (7276108163233185 / 17592186044416) = Inr r \<and>
      percentage_saved r = 33.33) \<and>
   (\<exists>r. calculate_water_savings_mock_f64
           (traditional_m3_f64 (7276108163233185 / 17592186044416))
           (7276108163233185 / 17592186044416) = Inr r \<and>
      percentage_saved r = 33.33)"
proof -
  obtain p where p: "irrigation_plan_main clear_weather 0 2 400 0.5 300 = Inr p"
      "0 < p_irrigation_m3 p"
    using plan_main_clear by blast
  obtain q where q: "irrigation_plan_mock clear_weather 0 2 400 0.5 300 = Inr q"
      "0 < p_irrigation_m3 q"
    using plan_mock_clear by blast
  obtain r1 where r1: "calculate_irrigation_main clear_weather 0 2 400 0.5 300 = Inr r1"
    using calculate_irrigation_main_clear by blast
  obtain r2 where r2: "calculate_irrigation_mock clear_weather 0 2 400 0.5 300 = Inr r2"
    using calculate_irrigation_mock_clear by blast
  have x: "pow2 (- 1020) \<le> 7276108163233185 / 17592186044416 \<and>
      7276108163233185 / 17592186044416 \<le> pow2 1000"
    by (simp add: pow2_def)
  note b = baseline_savings_constant[of clear_weather 0 2 400 "0.5" 300 p q
      "7276108163233185 / 17592186044416"]
  have 1: "water_saved_cubic_meters (resp_savings r1) = py_round (p_irrigation_m3 p / 2) 2 \<and>
      percentage_saved (resp_savings r1) = 33.33"
    using b p r1 by metis
  have 2: "water_saved_cubic_meters (resp_savings r2) = py_round (p_irrigation_m3 q / 2) 2 \<and>
      percentage_saved (resp_savings r2) = 33.33"
    using b q r2 by metis
  have 3: "\<bar>binary64 (traditional_m3_f64 (7276108163233185 / 17592186044416) -
       7276108163233185 / 17592186044416) - 7276108163233185 / 17592186044416 / 2\<bar> \<le>
     7276108163233185 / 17592186044416 / 2 ^ 51 \<and>
   (\<exists>r. calculate_water_savings_main_f64
           (traditional_m3_f64 (7276108163233185 / 17592186044416))
           (7276108163233185 / 17592186044416) = Inr r \<and>
      percentage_saved r = 33.33) \<and>
   (\<exists>r. calculate_water_savings_mock_f64
           (traditional_m3_f64 (7276108163233185 / 17592186044416))
           (7276108163233185 / 17592186044416) = Inr r \<and>
      percentage_saved r = 33.33)"
    using b x by blast
  from 1 2 3 p q r1 r2 show ?thesis by blast
qed

end
